theory Spec2Isabelle
  imports Main
begin

section \<open>Data model\<close>

text \<open>
  Timestamps are JavaScript \<open>Date\<close> values, read as the integer number of
  milliseconds since the epoch (\<open>Date.getTime()\<close>, \<open>Date.now()\<close>). One request is
  handled at one instant \<open>now\<close>.
\<close>

type_synonym time = int

text \<open>
  The user document of \<open>models/User\<close> (\<open>IUser\<close>). \<open>uid\<close> is the document's
  \<open>_id\<close>. Optional fields are options; a field removed by \<open>$unset\<close> reads as its
  schema default (\<open>isLocked\<close>: false) or as absent.
\<close>

record user =
  uid :: string
  email :: string
  password :: string
  firstName :: "string option"
  isEmailVerified :: bool
  emailVerificationToken :: "string option"
  emailVerificationExpires :: "time option"
  passwordResetToken :: "string option"
  passwordResetExpires :: "time option"
  loginAttempts :: int
  lockUntil :: "time option"
  isLocked :: bool
  twoFactorEnabled :: bool
  twoFactorSecret :: "string option"
  backupCodes :: "string list option"
  role :: string
  lastLogin :: "time option"
  lastLoginIP :: "string option"

section \<open>Credential store: lockout\<close>

text \<open>\<open>isAccountLocked\<close>: \<open>!!(this.lockUntil && this.lockUntil > new Date())\<close>.\<close>

definition isAccountLocked :: "user \<Rightarrow> time \<Rightarrow> bool" where
  "isAccountLocked u now = (case lockUntil u of None \<Rightarrow> False | Some t \<Rightarrow> t > now)"

text \<open>
  \<open>incrementLoginAttempts\<close>. \<open>maxAttempts\<close> is \<open>MAX_LOGIN_ATTEMPTS\<close> and
  \<open>lockMinutes\<close> is \<open>LOCKOUT_TIME\<close> of the process environment. The result is the
  stored document after the \<open>updateOne\<close>.
\<close>

definition incrementLoginAttempts :: "int \<Rightarrow> int \<Rightarrow> time \<Rightarrow> user \<Rightarrow> user" where
  "incrementLoginAttempts maxAttempts lockMinutes now u =
     (let lockTime = lockMinutes * 60 * 1000 in
      if (case lockUntil u of None \<Rightarrow> False | Some t \<Rightarrow> t < now)
      then u\<lparr>loginAttempts := 1, lockUntil := None, isLocked := False\<rparr>
      else
        let inc = u\<lparr>loginAttempts := loginAttempts u + 1\<rparr> in
        if loginAttempts u + 1 \<ge> maxAttempts \<and> \<not> isLocked u
        then inc\<lparr>lockUntil := Some (now + lockTime), isLocked := True\<rparr>
        else inc)"

text \<open>\<open>resetLoginAttempts\<close>.\<close>

definition resetLoginAttempts :: "user \<Rightarrow> user" where
  "resetLoginAttempts u = u\<lparr>loginAttempts := 0, lockUntil := None, isLocked := False\<rparr>"

text \<open>The defaults of the two environment variables: \<open>'5'\<close> and \<open>'30'\<close>.\<close>

definition MAX_LOGIN_ATTEMPTS :: int where
  "MAX_LOGIN_ATTEMPTS = 5"

definition LOCKOUT_TIME :: int where
  "LOCKOUT_TIME = 30"

text \<open>Failures recorded one after the other, at the given instants.\<close>

definition recordFailures :: "time list \<Rightarrow> user \<Rightarrow> user" where
  "recordFailures ts u = fold (incrementLoginAttempts MAX_LOGIN_ATTEMPTS LOCKOUT_TIME) ts u"

text \<open>The lock of an account has expired at \<open>now\<close>: \<open>lockUntil && lockUntil < now\<close>.\<close>

definition lockExpired :: "user \<Rightarrow> time \<Rightarrow> bool" where
  "lockExpired u now = (case lockUntil u of None \<Rightarrow> False | Some t \<Rightarrow> t < now)"

section \<open>Credential store: password strength\<close>









text \<open>
  \<open>String.prototype.toLowerCase\<close> on 8-bit characters: the letters A to Z and the
  Latin-1 capitals (0xC0 to 0xDE but the multiplication sign 0xD7) move up by 32.
\<close>

definition toLowerChar :: "char \<Rightarrow> char" where
  "toLowerChar c =
     (let n = (of_char c :: nat) in
      if (65 \<le> n \<and> n \<le> 90) \<or> (192 \<le> n \<and> n \<le> 222 \<and> n \<noteq> 215)
      then char_of (n + 32) else c)"

definition toLowerCase :: "string \<Rightarrow> string" where
  "toLowerCase s = map toLowerChar s"













section \<open>Stored collections\<close>

text \<open>
  A collection is the list of its documents; a document is identified by its position,
  which no operation below changes but the removal of a device. A query returns the
  first document that matches. Reads and writes of the store succeed; the removal of
  expired sessions by the store in the background is not modelled (the queries below
  skip expired sessions themselves).
\<close>

fun findIndex :: "('a \<Rightarrow> bool) \<Rightarrow> 'a list \<Rightarrow> nat option" where
  "findIndex P [] = None"
| "findIndex P (x # xs) = (if P x then Some 0 else map_option Suc (findIndex P xs))"

text \<open>\<open>xs.splice(i, 1)\<close>, and the removal of the document at a position.\<close>

definition removeAt :: "nat \<Rightarrow> 'a list \<Rightarrow> 'a list" where
  "removeAt i xs = take i xs @ drop (Suc i) xs"

text \<open>
  \<open>DeviceInfo\<close> of \<open>utils/deviceParser\<close>, as \<open>parseDeviceInfo\<close> returns it.
  In the documents below a field whose name another document has too carries a
  prefix (\<open>dev_\<close>, \<open>log_\<close>, \<open>tp_\<close>, \<open>lr_\<close>), and the refresh token of a
  token pair is \<open>newRefreshToken\<close>.
\<close>

record deviceInfo =
  userAgent :: string
  ipAddress :: string
  deviceType :: "string option"
  browser :: "string option"
  os :: "string option"

text \<open>The session document (\<open>ISession\<close>).\<close>

record session =
  userId :: string
  refreshToken :: string
  deviceInfo :: deviceInfo
  isActive :: bool
  lastActivity :: time
  expiresAt :: time
  createdAt :: time

text \<open>The device document (\<open>IDevice\<close>).\<close>

record device =
  dev_userId :: string
  deviceId :: string
  deviceName :: string
  dev_deviceType :: string
  dev_browser :: "string option"
  dev_os :: "string option"
  dev_ipAddress :: string
  lastUsed :: time
  isTrusted :: bool

text \<open>The security event (\<open>ISecurityLog\<close>); coordinates are left out of the location.\<close>

datatype status = Success | Failure | Warning

record location =
  country :: "string option"
  city :: "string option"

record securityLog =
  log_userId :: "string option"
  log_email :: "string option"
  action :: string
  log_ipAddress :: string
  log_userAgent :: string
  status :: status
  details :: "string option"
  log_location :: "location option"
  log_createdAt :: time

record db =
  users :: "user list"
  sessions :: "session list"
  devices :: "device list"
  securityLogs :: "securityLog list"

record tokenPair =
  accessToken :: string
  newRefreshToken :: string

record tokenPayload =
  tp_userId :: string
  tp_email :: string
  tp_role :: string

text \<open>
  What a request reads from outside the stored collections: the clock, the password
  hash comparison, the one-time-code library, the token library and the mailer.
  \<open>totpVerify\<close>, \<open>generateTokenPair\<close> and \<open>verifyRefreshToken\<close> return \<open>None\<close>
  when the call throws (\<open>generateTokenPair\<close> and \<open>verifyRefreshToken\<close> throw when
  the signing secret is not defined, \<open>verifyRefreshToken\<close> also on a token it rejects).
  \<open>mailOk\<close> tells whether the mailer delivers. \<open>getHours\<close> is the local hour of
  a timestamp, \<open>sha256\<close> the hash in hexadecimal, \<open>randomBytes\<close> the random token
  of the request, and \<open>maxLoginAttempts\<close> and \<open>lockoutTime\<close> are the environment
  variables \<open>MAX_LOGIN_ATTEMPTS\<close> and \<open>LOCKOUT_TIME\<close>. \<open>localTZA t isUTC\<close> is
  the offset of the server's time zone from UTC in milliseconds, at the instant
  \<open>t\<close> when \<open>isUTC\<close> holds and at the local time \<open>t\<close> otherwise (the
  \<open>LocalTZA\<close> of the language standard, with which \<open>Date\<close> reads and
  writes the fields of a local date).
\<close>

record env =
  now :: time
  bcryptCompare :: "string \<Rightarrow> string \<Rightarrow> bool"
  totpVerify :: "string option \<Rightarrow> string \<Rightarrow> time \<Rightarrow> bool option"
  generateTokenPair :: "user \<Rightarrow> time \<Rightarrow> tokenPair option"
  verifyRefreshToken :: "string \<Rightarrow> time \<Rightarrow> tokenPayload option"
  sha256 :: "string \<Rightarrow> string"
  randomBytes :: string
  mailOk :: bool
  getHours :: "time \<Rightarrow> int"
  maxLoginAttempts :: int
  lockoutTime :: int
  localTZA :: "time \<Rightarrow> bool \<Rightarrow> int"

text \<open>
  A response: status code, \<open>success\<close>, \<open>message\<close>, the \<open>requires2FA\<close> mark
  and the tokens. The copy of the user's profile in the answer to a login is left out.
\<close>

record response =
  statusCode :: nat
  success :: bool
  message :: "string option"
  requires2FA :: bool
  tokens :: "tokenPair option"

definition reply :: "nat \<Rightarrow> bool \<Rightarrow> string \<Rightarrow> response" where
  "reply code ok msg =
     \<lparr> statusCode = code, success = ok, message = Some msg, requires2FA = False,
       tokens = None \<rparr>"

section \<open>Security event log\<close>

text \<open>The closed enumeration of the \<open>action\<close> field in the schema.\<close>

definition actionEnum :: "string list" where
  "actionEnum =
     [''login'', ''logout'', ''register'', ''password_change'', ''password_reset'',
      ''email_verification'', ''2fa_enabled'', ''2fa_disabled'', ''2fa_verified'',
      ''session_created'', ''session_revoked'', ''suspicious_activity'',
      ''account_locked'', ''profile_update'']"

text \<open>
  \<open>logSecurityEvent\<close>: the entry is created inside a \<open>try\<close>; an action outside
  the enumeration fails the schema's validation and nothing is stored. The unawaited
  location lookup that may later attach a location to a recent entry is left out;
  nothing proved below depends on the locations in the log.
\<close>

definition logSecurityEvent ::
  "string option \<Rightarrow> string option \<Rightarrow> string \<Rightarrow> deviceInfo \<Rightarrow> time \<Rightarrow> status \<Rightarrow> string
     \<Rightarrow> securityLog list \<Rightarrow> securityLog list" where
  "logSecurityEvent uidOpt emailOpt act di t st det logs =
     (if act \<in> set actionEnum
      then logs @ [\<lparr> log_userId = uidOpt, log_email = emailOpt, action = act,
                     log_ipAddress = ipAddress di, log_userAgent = userAgent di,
                     status = st, details = Some det, log_location = None,
                     log_createdAt = t \<rparr>]
      else logs)"

text \<open>
  \<open>.sort({ createdAt: -1 })\<close>: newest first; entries of one instant keep their
  order.
\<close>

definition newestFirst :: "securityLog list \<Rightarrow> securityLog list" where
  "newestFirst logs = sort_key (\<lambda>l. - log_createdAt l) logs"

section \<open>Risk engine\<close>

record suspiciousActivityCheck =
  isSuspicious :: bool
  reasons :: "string list"
  riskScore :: int

definition notSuspicious :: suspiciousActivityCheck where
  "notSuspicious = \<lparr> isSuspicious = False, reasons = [], riskScore = 0 \<rparr>"

text \<open>\<open>getLocationFromIP\<close> of \<open>utils/geolocation\<close>.\<close>

definition startsWith :: "string \<Rightarrow> string \<Rightarrow> bool" where
  "startsWith s p = (take (length p) s = p)"

definition getLocationFromIP :: "string \<Rightarrow> location option" where
  "getLocationFromIP ip =
     (if ip = ''127.0.0.1'' \<or> ip = ''::1'' \<or> startsWith ip ''192.168.''
         \<or> startsWith ip ''10.'' \<or> startsWith ip ''172.16.''
      then Some \<lparr> country = Some ''Local'', city = Some ''Local Network'' \<rparr>
      else None)"

text \<open>The country of a location, when it is present and not empty (\<open>location?.country\<close>).\<close>

definition countryOf :: "location option \<Rightarrow> string option" where
  "countryOf loc =
     (case loc of None \<Rightarrow> None
      | Some l \<Rightarrow> (case country l of None \<Rightarrow> None
                   | Some c \<Rightarrow> if c = [] then None else Some c))"

text \<open>The queries of \<open>checkSuspiciousLogin\<close> on the log.\<close>

definition recentFailures :: "time \<Rightarrow> string \<Rightarrow> securityLog list \<Rightarrow> nat" where
  "recentFailures t u logs =
     length (filter (\<lambda>l. log_userId l = Some u \<and> action l = ''login'' \<and> status l = Failure
                        \<and> log_createdAt l \<ge> t - 15 * 60 * 1000) logs)"

definition successfulLogins :: "string \<Rightarrow> securityLog list \<Rightarrow> securityLog list" where
  "successfulLogins u logs =
     filter (\<lambda>l. log_userId l = Some u \<and> action l = ''login'' \<and> status l = Success) logs"

definition recentSuccessfulLogins :: "time \<Rightarrow> string \<Rightarrow> securityLog list \<Rightarrow> securityLog list" where
  "recentSuccessfulLogins t u logs =
     take 10 (newestFirst
       (filter (\<lambda>l. log_createdAt l \<ge> t - 30 * 24 * 60 * 60 * 1000) (successfulLogins u logs)))"

text \<open>
  The hour check: \<open>Math.abs(currentHour - sum / n) > 6\<close>. The hours are integers
  from 0 to 23 and there are at most ten of them, so the comparison is decided
  exactly by \<open>|currentHour * n - sum| > 6 * n\<close>.
\<close>

definition unusualHour :: "int \<Rightarrow> int list \<Rightarrow> bool" where
  "unusualHour currentHour loginHours =
     (\<bar>currentHour * int (length loginHours) - sum_list loginHours\<bar>
        > 6 * int (length loginHours))"

definition joinReasons :: "string list \<Rightarrow> string" where
  "joinReasons rs = (case rs of [] \<Rightarrow> [] | r # rest \<Rightarrow> foldl (\<lambda>a b. a @ '', '' @ b) r rest)"

text \<open>
  One check of the risk engine:
  \<open>if (c) { reasons.push(reason); riskScore += points; }\<close>.
\<close>

definition addReason :: "bool \<Rightarrow> string \<Rightarrow> int \<Rightarrow> string list \<times> int \<Rightarrow> string list \<times> int" where
  "addReason c reason points r = (if c then (fst r @ [reason], snd r + points) else r)"

text \<open>The countries of the recent successful logins that carry one.\<close>

definition recentCountries :: "securityLog list \<Rightarrow> string list" where
  "recentCountries recent = List.map_filter (\<lambda>l. countryOf (log_location l)) recent"

text \<open>
  The six checks of \<open>checkSuspiciousLogin\<close>, in the order of the source, on the
  user document and the log: the reasons and the score.
\<close>

definition loginRisk ::
  "env \<Rightarrow> string \<Rightarrow> user \<Rightarrow> deviceInfo \<Rightarrow> securityLog list \<Rightarrow> string list \<times> int" where
  "loginRisk e u usr di logs =
     (let r0 = ([], 0::int);
          r1 = addReason (recentFailures (now e) u logs \<ge> 3)
                 ''Multiple failed login attempts in short time'' 30 r0;
          recent = recentSuccessfulLogins (now e) u logs;
          r2 = addReason (ipAddress di \<notin> set (map log_ipAddress recent) \<and> length recent > 0)
                 ''Login from new IP address'' 25 r1;
          r3 = addReason (userAgent di \<notin> set (map log_userAgent recent) \<and> length recent > 0)
                 ''Login from new device or browser'' 20 r2;
          loc = getLocationFromIP (ipAddress di);
          r4 = (case countryOf loc of
                  None \<Rightarrow> r3
                | Some c \<Rightarrow>
                   addReason (c \<notin> set (recentCountries recent) \<and> recentCountries recent \<noteq> [])
                     (''Login from new country: '' @ c) 30 r3);
          r5 = addReason (length recent > 5
                          \<and> unusualHour (getHours e (now e))
                               (map (\<lambda>l. getHours e (log_createdAt l)) recent))
                 ''Login outside normal hours'' 15 r4;
          r6 = addReason (isLocked usr \<or> lockUntil usr \<noteq> None)
                 ''Account was recently locked'' 20 r5
      in r6)"

text \<open>
  \<open>checkSuspiciousLogin\<close>. The alert mail is sent inside its own \<open>try\<close> and
  changes nothing that is returned or stored. The outer \<open>catch\<close>, which answers a
  failure of the store with score 0, is never reached in the model.
\<close>

definition checkSuspiciousLogin ::
  "env \<Rightarrow> string \<Rightarrow> deviceInfo \<Rightarrow> db \<Rightarrow> suspiciousActivityCheck \<times> db" where
  "checkSuspiciousLogin e u di d =
     (case findIndex (\<lambda>x. uid x = u) (users d) of
        None \<Rightarrow> (notSuspicious, d)
      | Some i \<Rightarrow>
         (let usr = users d ! i;
              r = loginRisk e u usr di (securityLogs d);
              susp = (snd r \<ge> 50);
              d' = (if susp
                    then d\<lparr>securityLogs := securityLogs d @
                           [\<lparr> log_userId = Some u, log_email = Some (email usr),
                              action = ''suspicious_activity'',
                              log_ipAddress = ipAddress di, log_userAgent = userAgent di,
                              status = Warning,
                              details = Some (''Suspicious login detected: ''
                                              @ joinReasons (fst r)),
                              log_location = getLocationFromIP (ipAddress di),
                              log_createdAt = now e \<rparr>]\<rparr>
                    else d)
          in (\<lparr> isSuspicious = susp, reasons = fst r, riskScore = snd r \<rparr>, d')))"

text \<open>The queries of \<open>checkSuspiciousPasswordChange\<close> on the log.\<close>

definition activityLastWeek :: "time \<Rightarrow> string \<Rightarrow> securityLog list \<Rightarrow> securityLog list" where
  "activityLastWeek t u logs =
     filter (\<lambda>l. log_userId l = Some u \<and> action l \<in> set [''login'', ''password_change'']
                  \<and> status l = Success
                  \<and> log_createdAt l \<ge> t - 7 * 24 * 60 * 60 * 1000) logs"

definition recentActivity :: "time \<Rightarrow> string \<Rightarrow> securityLog list \<Rightarrow> securityLog list" where
  "recentActivity t u logs = take 5 (newestFirst (activityLastWeek t u logs))"

definition recentPasswordChanges :: "time \<Rightarrow> string \<Rightarrow> securityLog list \<Rightarrow> nat" where
  "recentPasswordChanges t u logs =
     length (filter (\<lambda>l. log_userId l = Some u \<and> action l = ''password_change''
                        \<and> log_createdAt l \<ge> t - 24 * 60 * 60 * 1000) logs)"

text \<open>\<open>checkSuspiciousPasswordChange\<close>.\<close>

definition passwordChangeRisk ::
  "env \<Rightarrow> string \<Rightarrow> deviceInfo \<Rightarrow> securityLog list \<Rightarrow> string list \<times> int" where
  "passwordChangeRisk e u di logs =
     (let r0 = ([], 0::int);
          recent = recentActivity (now e) u logs;
          r1 = addReason (ipAddress di \<notin> set (map log_ipAddress recent) \<and> length recent > 0)
                 ''Password change from new IP address'' 40 r0;
          r2 = addReason (recentPasswordChanges (now e) u logs > 0)
                 ''Password changed multiple times recently'' 30 r1
      in r2)"

definition checkSuspiciousPasswordChange ::
  "env \<Rightarrow> string \<Rightarrow> deviceInfo \<Rightarrow> db \<Rightarrow> suspiciousActivityCheck \<times> db" where
  "checkSuspiciousPasswordChange e u di d =
     (let r = passwordChangeRisk e u di (securityLogs d);
          susp = (snd r \<ge> 40);
          d' = (if susp
                then (case findIndex (\<lambda>x. uid x = u) (users d) of
                        None \<Rightarrow> d
                      | Some i \<Rightarrow>
                         d\<lparr>securityLogs := securityLogs d @
                           [\<lparr> log_userId = Some u, log_email = Some (email (users d ! i)),
                              action = ''suspicious_activity'',
                              log_ipAddress = ipAddress di, log_userAgent = userAgent di,
                              status = Warning,
                              details = Some (''Suspicious password change: ''
                                              @ joinReasons (fst r)),
                              log_location = None, log_createdAt = now e \<rparr>]\<rparr>)
                else d)
      in (\<lparr> isSuspicious = susp, reasons = fst r, riskScore = snd r \<rparr>, d'))"

section \<open>Sessions and devices\<close>

text \<open>
  The query of \<open>refreshToken\<close>:
  \<open>Session.findOne({ refreshToken, isActive: true, expiresAt: { $gt: new Date() } })\<close>.
\<close>

definition findActiveSession :: "string \<Rightarrow> time \<Rightarrow> session list \<Rightarrow> nat option" where
  "findActiveSession tok t ss =
     findIndex (\<lambda>s. refreshToken s = tok \<and> isActive s \<and> expiresAt s > t) ss"

text \<open>
  \<open>refreshToken\<close>, the handler. The schema declares \<open>refreshToken\<close> unique, so
  saving a session under the token of another session fails with a duplicate key,
  which the handler's \<open>catch\<close> turns into status 500.
\<close>

definition refreshError :: response where
  "refreshError = reply 500 False ''Token refresh failed''"

definition refreshTokenHandler :: "env \<Rightarrow> string option \<Rightarrow> db \<Rightarrow> response \<times> db" where
  "refreshTokenHandler e tokOpt d =
     (case tokOpt of
        None \<Rightarrow> (reply 400 False ''Refresh token is required'', d)
      | Some tok \<Rightarrow>
         if tok = [] then (reply 400 False ''Refresh token is required'', d)
         else
          (case verifyRefreshToken e tok (now e) of
             None \<Rightarrow> (reply 401 False ''Invalid or expired refresh token'', d)
           | Some decoded \<Rightarrow>
              (case findActiveSession tok (now e) (sessions d) of
                 None \<Rightarrow> (reply 401 False ''Session expired or invalid'', d)
               | Some k \<Rightarrow>
                  (case findIndex (\<lambda>u. uid u = tp_userId decoded) (users d) of
                     None \<Rightarrow> (reply 401 False ''User not found'', d)
                   | Some i \<Rightarrow>
                      if isAccountLocked (users d ! i) (now e)
                      then (reply 403 False ''Account is locked'', d)
                      else
                       (case generateTokenPair e (users d ! i) (now e) of
                          None \<Rightarrow> (refreshError, d)
                        | Some tk \<Rightarrow>
                           if newRefreshToken tk
                                \<in> set (map refreshToken (removeAt k (sessions d)))
                           then (refreshError, d)
                           else
                            (\<lparr> statusCode = 200, success = True, message = None,
                               requires2FA = False, tokens = Some tk \<rparr>,
                             d\<lparr>sessions := (sessions d)
                                  [k := (sessions d ! k)\<lparr>refreshToken := newRefreshToken tk,
                                                          lastActivity := now e\<rparr>]\<rparr>))))))"


text \<open>\<open>generateDeviceId\<close>: the first 32 characters of the hash of user agent and address.\<close>

definition generateDeviceId :: "env \<Rightarrow> deviceInfo \<Rightarrow> string" where
  "generateDeviceId e di = take 32 (sha256 e (userAgent di @ ''-'' @ ipAddress di))"

text \<open>A template literal prints an absent value as \<open>undefined\<close>.\<close>

definition tpl :: "string option \<Rightarrow> string" where
  "tpl v = (case v of None \<Rightarrow> ''undefined'' | Some x \<Rightarrow> x)"

text \<open>
  The upsert of \<open>login\<close>: \<open>Device.findOneAndUpdate({ userId, deviceId }, {...},
  { upsert: true })\<close>. An absent value sets nothing; a new device gets the defaults of
  the schema.
\<close>

definition upsertDevice :: "time \<Rightarrow> string \<Rightarrow> string \<Rightarrow> deviceInfo \<Rightarrow> device list \<Rightarrow> device list" where
  "upsertDevice t u did di devs =
     (case findIndex (\<lambda>x. dev_userId x = u \<and> deviceId x = did) devs of
        Some k \<Rightarrow>
          devs[k := (devs ! k)
            \<lparr> deviceName := tpl (browser di) @ '' on '' @ tpl (os di),
              dev_deviceType := (case deviceType di of None \<Rightarrow> dev_deviceType (devs ! k)
                                 | Some x \<Rightarrow> x),
              dev_browser := (case browser di of None \<Rightarrow> dev_browser (devs ! k)
                              | Some x \<Rightarrow> Some x),
              dev_os := (case os di of None \<Rightarrow> dev_os (devs ! k) | Some x \<Rightarrow> Some x),
              dev_ipAddress := ipAddress di,
              lastUsed := t \<rparr>]
      | None \<Rightarrow>
          devs @ [\<lparr> dev_userId = u, deviceId = did,
                    deviceName = tpl (browser di) @ '' on '' @ tpl (os di),
                    dev_deviceType = (case deviceType di of None \<Rightarrow> ''unknown'' | Some x \<Rightarrow> x),
                    dev_browser = browser di, dev_os = os di,
                    dev_ipAddress = ipAddress di, lastUsed = t, isTrusted = False \<rparr>])"

text \<open>
  The filter of the \<open>Session.updateMany\<close> in \<open>revokeDevice\<close>: the user, the
  device type and the address of the device.
\<close>

definition sessionMatchesDevice :: "string \<Rightarrow> device \<Rightarrow> session \<Rightarrow> bool" where
  "sessionMatchesDevice u dev s =
     (userId s = u \<and> deviceType (deviceInfo s) = Some (dev_deviceType dev)
      \<and> ipAddress (deviceInfo s) = dev_ipAddress dev)"

text \<open>
  \<open>revokeDevice\<close>. \<open>reqUser\<close> is \<open>req.user\<close>. The event \<open>device_revoked\<close> goes
  through \<open>logSecurityEvent\<close>.
\<close>

definition revokeDevice ::
  "env \<Rightarrow> tokenPayload option \<Rightarrow> string \<Rightarrow> deviceInfo \<Rightarrow> db \<Rightarrow> response \<times> db" where
  "revokeDevice e reqUser devId di d =
     (case reqUser of
        None \<Rightarrow> (reply 401 False ''Authentication required'', d)
      | Some p \<Rightarrow>
         if tp_userId p = [] then (reply 401 False ''Authentication required'', d)
         else
          (case findIndex (\<lambda>x. dev_userId x = tp_userId p \<and> deviceId x = devId) (devices d) of
             None \<Rightarrow> (reply 404 False ''Device not found'', d)
           | Some k \<Rightarrow>
              (let dev = devices d ! k;
                   ss = map (\<lambda>s. if sessionMatchesDevice (tp_userId p) dev s
                                  then s\<lparr>isActive := False\<rparr> else s) (sessions d);
                   d1 = d\<lparr>sessions := ss, devices := removeAt k (devices d)\<rparr>;
                   d2 = d1\<lparr>securityLogs :=
                          logSecurityEvent (Some (tp_userId p)) (Some (tp_email p))
                            ''device_revoked'' di (now e) Success
                            (''Device '' @ deviceName dev @ '' revoked'') (securityLogs d1)\<rparr>
               in (reply 200 True ''Device revoked successfully'', d2))))"

text \<open>
  A session belongs to a device when the metadata the device stores (user, type,
  browser, operating system, address) is the metadata of the session.
\<close>

definition sessionOfDevice :: "device \<Rightarrow> session \<Rightarrow> bool" where
  "sessionOfDevice dev s =
     (userId s = dev_userId dev
      \<and> deviceType (deviceInfo s) = Some (dev_deviceType dev)
      \<and> browser (deviceInfo s) = dev_browser dev
      \<and> os (deviceInfo s) = dev_os dev
      \<and> ipAddress (deviceInfo s) = dev_ipAddress dev)"

section \<open>Login\<close>

text \<open>
  The body of a login request as the handler reads it, after the validators of the
  route, and the device information that \<open>parseDeviceInfo\<close> takes from the request.
\<close>

record loginRequest =
  lr_email :: string
  lr_password :: string
  twoFactorToken :: "string option"
  lr_deviceInfo :: deviceInfo

definition loginError :: response where
  "loginError = reply 500 False ''Login failed. Please try again.''"

text \<open>
  The filter of a query by email. The schema declares the path \<open>email\<close> with
  \<open>lowercase: true\<close> and \<open>trim: true\<close>, and the store library applies the setters
  of a path to the value of a query filter as well. \<open>String.prototype.trim\<close>
  removes white space and line terminators at both ends: among the 8-bit characters
  the tabulators, line feed, form feed, carriage return, the space and the
  no-break space.
\<close>

definition isWhiteSpace :: "char \<Rightarrow> bool" where
  "isWhiteSpace c =
     (c \<in> set [CHR 0x09, CHR 0x0A, CHR 0x0B, CHR 0x0C, CHR 0x0D, CHR 0x20, CHR 0xA0])"

definition trim :: "string \<Rightarrow> string" where
  "trim s = rev (dropWhile isWhiteSpace (rev (dropWhile isWhiteSpace s)))"

definition castEmail :: "string \<Rightarrow> string" where
  "castEmail s = trim (toLowerCase s)"

text \<open>
  The document that \<open>login\<close> holds:
  \<open>User.findOne({ email: email.toLowerCase() }).select('+password')\<close>. The schema
  declares \<open>password\<close>, \<open>twoFactorSecret\<close> and \<open>backupCodes\<close> with
  \<open>select: false\<close>, and the selection names the password only, so the document is
  loaded without the secret and without the backup codes.
\<close>

definition loadForLogin :: "user \<Rightarrow> user" where
  "loadForLogin u = u\<lparr>twoFactorSecret := None, backupCodes := None\<rparr>"

text \<open>
  The second factor of \<open>login\<close>, on the document \<open>u\<close> that the handler holds:
  the one-time code first, with \<open>u\<close>'s secret, then \<open>u\<close>'s backup codes if it
  has any. The result is \<open>isValidToken\<close>, \<open>backupCodeUsed\<close> and the document,
  from which the code that matched has been spliced out; \<open>None\<close> when the library
  throws.
\<close>

definition verifySecondFactor :: "env \<Rightarrow> user \<Rightarrow> string \<Rightarrow> (bool \<times> bool \<times> user) option" where
  "verifySecondFactor e u tok =
     (case totpVerify e (twoFactorSecret u) tok (now e) of
        None \<Rightarrow> None
      | Some isValidToken \<Rightarrow>
         if \<not> isValidToken
         then (case backupCodes u of
                 None \<Rightarrow> Some (isValidToken, False, u)
               | Some codes \<Rightarrow>
                  (case findIndex (\<lambda>c. c = tok) codes of
                     None \<Rightarrow> Some (isValidToken, False, u)
                   | Some codeIndex \<Rightarrow>
                      Some (isValidToken, True,
                            u\<lparr>backupCodes := Some (removeAt codeIndex codes)\<rparr>)))
         else Some (isValidToken, False, u))"

text \<open>
  The expiry of a new session: \<open>sessionExpiry = new Date()\<close>, then
  \<open>sessionExpiry.setDate(sessionExpiry.getDate() + 7)\<close>. The date is read in the
  local time of the server, seven is added to the day of the month with the time
  within the day kept, and the local date is turned back into a time value with the
  offset of that local date.
\<close>

definition msPerDay :: int where
  "msPerDay = 86400000"

definition localTime :: "env \<Rightarrow> time \<Rightarrow> time" where
  "localTime e t = t + localTZA e t True"

definition utcTime :: "env \<Rightarrow> time \<Rightarrow> time" where
  "utcTime e l = l - localTZA e l False"

definition sessionExpiry :: "env \<Rightarrow> time" where
  "sessionExpiry e = utcTime e (localTime e (now e) + 7 * msPerDay)"

text \<open>
  The end of \<open>login\<close>, once the credentials are accepted, for the user at position
  \<open>i\<close> and the document \<open>u0\<close> that the handler holds: the counter is reset in
  the store (\<open>d1\<close>), the last login is set on the document and saved (\<open>d2\<close>:
  \<open>save\<close> writes the modified paths), the risk is scored, the tokens are made, the
  device is upserted, the session is created and the event is logged. A session
  under a refresh token that is already stored fails with a duplicate key.
\<close>

definition completeLogin :: "env \<Rightarrow> loginRequest \<Rightarrow> nat \<Rightarrow> user \<Rightarrow> db \<Rightarrow> response \<times> db" where
  "completeLogin e r i u0 d =
     (let di = lr_deviceInfo r;
          d1 = d\<lparr>users := (users d)[i := resetLoginAttempts (users d ! i)]\<rparr>;
          u = u0\<lparr>lastLogin := Some (now e), lastLoginIP := Some (ipAddress di)\<rparr>;
          d2 = d1\<lparr>users := (users d1)[i := (users d1 ! i)
                   \<lparr>lastLogin := Some (now e), lastLoginIP := Some (ipAddress di)\<rparr>]\<rparr>;
          d3 = snd (checkSuspiciousLogin e (uid u) di d2)
      in case generateTokenPair e u (now e) of
           None \<Rightarrow> (loginError, d3)
         | Some tk \<Rightarrow>
            (let d4 = d3\<lparr>devices :=
                        upsertDevice (now e) (uid u) (generateDeviceId e di) di (devices d3)\<rparr>
             in if newRefreshToken tk \<in> set (map refreshToken (sessions d4))
                then (loginError, d4)
                else
                 (let d5 = d4\<lparr>sessions := sessions d4 @
                             [\<lparr> userId = uid u, refreshToken = newRefreshToken tk,
                                deviceInfo = di, isActive = True, lastActivity = now e,
                                expiresAt = sessionExpiry e, createdAt = now e \<rparr>]\<rparr>;
                      d6 = d5\<lparr>securityLogs :=
                             logSecurityEvent (Some (uid u)) (Some (email u)) ''login'' di
                               (now e) Success ''User logged in successfully''
                               (securityLogs d5)\<rparr>
                  in (\<lparr> statusCode = 200, success = True, message = Some ''Login successful'',
                        requires2FA = False, tokens = Some tk \<rparr>, d6))))"

text \<open>
  The first part of \<open>login\<close>, up to the second factor: \<open>Inl\<close> is a response
  that is returned at once, \<open>Inr\<close> the position of the user, the document the
  handler holds and the collections with which the handler goes on.
  \<open>incrementLoginAttempts\<close> is an \<open>updateOne\<close> on the stored document, and the
  \<open>save\<close> after a backup code was spliced out writes the backup codes of the
  document the handler holds.
\<close>

definition checkCredentials ::
  "env \<Rightarrow> loginRequest \<Rightarrow> db \<Rightarrow> (response \<times> db) + (nat \<times> user \<times> db)" where
  "checkCredentials e r d =
     (let di = lr_deviceInfo r in
      case findIndex (\<lambda>u. email u = castEmail (toLowerCase (lr_email r))) (users d) of
        None \<Rightarrow>
          Inl (reply 401 False ''Invalid email or password'',
               d\<lparr>securityLogs := logSecurityEvent None (Some (lr_email r)) ''login'' di
                    (now e) Failure ''User not found'' (securityLogs d)\<rparr>)
      | Some i \<Rightarrow>
         (let u = loadForLogin (users d ! i) in
          if isAccountLocked u (now e)
          then Inl (reply 403 False
                      ''Account is locked. Please try again later or reset your password.'',
                    d\<lparr>securityLogs := logSecurityEvent (Some (uid u)) (Some (email u))
                         ''login'' di (now e) Failure
                         ''Account locked due to too many failed attempts''
                         (securityLogs d)\<rparr>)
          else if \<not> bcryptCompare e (lr_password r) (password u)
          then Inl (reply 401 False ''Invalid email or password'',
                    d\<lparr>users := (users d)
                         [i := incrementLoginAttempts (maxLoginAttempts e) (lockoutTime e)
                                 (now e) (users d ! i)],
                      securityLogs := logSecurityEvent (Some (uid u)) (Some (email u))
                         ''login'' di (now e) Failure ''Invalid password'' (securityLogs d)\<rparr>)
          else if twoFactorEnabled u
          then (case twoFactorToken r of
                  None \<Rightarrow>
                    Inl (\<lparr> statusCode = 200, success = False,
                           message = Some ''Two-factor authentication required'',
                           requires2FA = True, tokens = None \<rparr>, d)
                | Some tok \<Rightarrow>
                   if tok = []
                   then Inl (\<lparr> statusCode = 200, success = False,
                                message = Some ''Two-factor authentication required'',
                                requires2FA = True, tokens = None \<rparr>, d)
                   else
                    (case verifySecondFactor e u tok of
                       None \<Rightarrow> Inl (loginError, d)
                     | Some (isValidToken, backupCodeUsed, u') \<Rightarrow>
                        (let d1 = (if backupCodeUsed
                                   then d\<lparr>users := (users d)
                                          [i := (users d ! i)\<lparr>backupCodes := backupCodes u'\<rparr>]\<rparr>
                                   else d)
                         in if \<not> isValidToken \<and> \<not> backupCodeUsed
                            then Inl (reply 401 False ''Invalid two-factor authentication code'',
                                      d1\<lparr>securityLogs :=
                                           logSecurityEvent (Some (uid u)) (Some (email u))
                                             ''login'' di (now e) Failure ''Invalid 2FA token''
                                             (securityLogs d1)\<rparr>)
                            else Inr (i, u', d1))))
          else Inr (i, u, d)))"

text \<open>\<open>login\<close>.\<close>

definition login :: "env \<Rightarrow> loginRequest \<Rightarrow> db \<Rightarrow> response \<times> db" where
  "login e r d =
     (case checkCredentials e r d of
        Inl out \<Rightarrow> out
      | Inr (i, u, d1) \<Rightarrow> completeLogin e r i u d1)"


text \<open>The backup codes stored for a user, as a set.\<close>

definition backupCodeSet :: "user \<Rightarrow> string set" where
  "backupCodeSet u = (case backupCodes u of None \<Rightarrow> {} | Some codes \<Rightarrow> set codes)"

text \<open>
  A wrong or missing second factor for the stored user \<open>u\<close>: none or an empty one,
  or a code that is neither a one-time code of \<open>u\<close>'s secret at this time nor one
  of \<open>u\<close>'s backup codes.
\<close>

definition wrongSecondFactor :: "env \<Rightarrow> user \<Rightarrow> string option \<Rightarrow> bool" where
  "wrongSecondFactor e u code =
     (case code of
        None \<Rightarrow> True
      | Some tok \<Rightarrow>
         tok = [] \<or> (totpVerify e (twoFactorSecret u) tok (now e) \<noteq> Some True
                     \<and> tok \<notin> backupCodeSet u))"

text \<open>
  A login attempt for a stored user with two-factor authentication enabled, with the
  correct password and a wrong or missing second factor.
\<close>

definition failedTwoFactorAttempt :: "user list \<Rightarrow> env \<times> loginRequest \<Rightarrow> bool" where
  "failedTwoFactorAttempt us a =
     (case findIndex (\<lambda>u. email u = castEmail (toLowerCase (lr_email (snd a)))) us of
        None \<Rightarrow> False
      | Some i \<Rightarrow>
         bcryptCompare (fst a) (lr_password (snd a)) (password (us ! i))
         \<and> twoFactorEnabled (us ! i)
         \<and> wrongSecondFactor (fst a) (us ! i) (twoFactorToken (snd a)))"

section \<open>Password reset and verification mail\<close>

text \<open>
  \<open>forgotPassword\<close>; the user is looked up with
  \<open>User.findOne({ email: email.toLowerCase() })\<close>, here and in
  \<open>resendVerificationEmail\<close>.
\<close>

definition forgotPassword :: "env \<Rightarrow> string \<Rightarrow> deviceInfo \<Rightarrow> db \<Rightarrow> response \<times> db" where
  "forgotPassword e em di d =
     (case findIndex (\<lambda>u. email u = castEmail (toLowerCase em)) (users d) of
        None \<Rightarrow>
          (reply 200 True ''If the email exists, a password reset link has been sent.'', d)
      | Some i \<Rightarrow>
         (let u = (users d ! i)\<lparr>passwordResetToken := Some (randomBytes e),
                                 passwordResetExpires := Some (now e + 60 * 60 * 1000)\<rparr>;
              d1 = d\<lparr>users := (users d)[i := u]\<rparr>
          in if \<not> mailOk e
             then (reply 500 False ''Failed to send password reset email'', d1)
             else (reply 200 True ''If the email exists, a password reset link has been sent.'',
                   d1\<lparr>securityLogs :=
                        logSecurityEvent (Some (uid u)) (Some (email u)) ''password_reset'' di
                          (now e) Success ''Password reset email sent'' (securityLogs d1)\<rparr>)))"

text \<open>\<open>resendVerificationEmail\<close>.\<close>

definition resendVerificationEmail :: "env \<Rightarrow> string \<Rightarrow> deviceInfo \<Rightarrow> db \<Rightarrow> response \<times> db" where
  "resendVerificationEmail e em di d =
     (case findIndex (\<lambda>u. email u = castEmail (toLowerCase em)) (users d) of
        None \<Rightarrow>
          (reply 200 True ''If the email exists, a verification link has been sent.'', d)
      | Some i \<Rightarrow>
         if isEmailVerified (users d ! i)
         then (reply 400 False ''Email is already verified'', d)
         else
          (let u = (users d ! i)\<lparr>emailVerificationToken := Some (randomBytes e),
                                  emailVerificationExpires :=
                                    Some (now e + 24 * 60 * 60 * 1000)\<rparr>;
               d1 = d\<lparr>users := (users d)[i := u]\<rparr>
           in if \<not> mailOk e
              then (reply 500 False ''Failed to send verification email'', d1)
              else (reply 200 True ''Verification email sent successfully'',
                    d1\<lparr>securityLogs :=
                         logSecurityEvent (Some (uid u)) (Some (email u)) ''email_verification''
                           di (now e) Success ''Verification email resent''
                           (securityLogs d1)\<rparr>)))"

section \<open>Example data\<close>

text \<open>
  Concrete inputs for the instances below. The environment compares a password with
  the stored hash by equality, accepts the one-time code 123456 for a secret and the
  code 000000 when it is called without a secret, signs the given refresh token,
  reads every refresh token as the first user's and runs in UTC.
\<close>

definition demoEnv :: "time \<Rightarrow> string \<Rightarrow> bool \<Rightarrow> env" where
  "demoEnv t tok mail =
     \<lparr> now = t,
       bcryptCompare = (\<lambda>candidate hash. candidate = hash),
       totpVerify =
         (\<lambda>secret code t'.
            Some (case secret of None \<Rightarrow> code = ''000000'' | Some k \<Rightarrow> code = ''123456'')),
       generateTokenPair =
         (\<lambda>u t'. Some \<lparr> accessToken = ''access-'' @ tok, newRefreshToken = tok \<rparr>),
       verifyRefreshToken =
         (\<lambda>tk t'. Some \<lparr> tp_userId = ''u1'', tp_email = ''ann@example.com'',
                          tp_role = ''user'' \<rparr>),
       sha256 = (\<lambda>s. s),
       randomBytes = ''c0ffee'',
       mailOk = mail,
       getHours = (\<lambda>t'. (t' div 3600000) mod 24),
       maxLoginAttempts = 5,
       lockoutTime = 30,
       localTZA = (\<lambda>t' isUTC. 0) \<rparr>"


definition demoUser :: user where
  "demoUser =
     \<lparr> uid = ''u1'', email = ''ann@example.com'', password = ''secret-hash'',
       firstName = None, isEmailVerified = False, emailVerificationToken = None,
       emailVerificationExpires = None, passwordResetToken = None,
       passwordResetExpires = None, loginAttempts = 0, lockUntil = None,
       isLocked = False, twoFactorEnabled = False, twoFactorSecret = None,
       backupCodes = None, role = ''user'', lastLogin = None, lastLoginIP = None \<rparr>"

definition demoLog :: "string \<Rightarrow> status \<Rightarrow> string \<Rightarrow> time \<Rightarrow> securityLog" where
  "demoLog act st ip t =
     \<lparr> log_userId = Some ''u1'', log_email = Some ''ann@example.com'', action = act,
       log_ipAddress = ip, log_userAgent = ''Firefox'', status = st, details = None,
       log_location = None, log_createdAt = t \<rparr>"

definition demoDevice :: "string \<Rightarrow> string \<Rightarrow> deviceInfo" where
  "demoDevice br ip =
     \<lparr> userAgent = br, ipAddress = ip, deviceType = Some ''desktop'',
       browser = Some br, os = Some ''Linux'' \<rparr>"

definition demoDb :: "securityLog list \<Rightarrow> db" where
  "demoDb logs = \<lparr> users = [demoUser], sessions = [], devices = [], securityLogs = logs \<rparr>"

text \<open>
  Three failed logins in the last five minutes before 4000000000, and one successful
  login: more than 30 days earlier in the first log, ten minutes earlier in the second.
\<close>

definition staleLoginLogs :: "securityLog list" where
  "staleLoginLogs =
     [demoLog ''login'' Success ''8.8.8.8'' 100000000,
      demoLog ''login'' Failure ''9.9.9.9'' 3999700000,
      demoLog ''login'' Failure ''9.9.9.9'' 3999800000,
      demoLog ''login'' Failure ''9.9.9.9'' 3999900000]"

definition freshLoginLogs :: "securityLog list" where
  "freshLoginLogs =
     [demoLog ''login'' Success ''8.8.8.8'' 3999400000,
      demoLog ''login'' Failure ''9.9.9.9'' 3999700000,
      demoLog ''login'' Failure ''9.9.9.9'' 3999800000,
      demoLog ''login'' Failure ''9.9.9.9'' 3999900000]"

text \<open>
  Six successful events in the week before 1000000000: the oldest from the address
  9.9.9.9, the five newer ones from 1.1.1.1, the newest of them a password change one
  hour ago.
\<close>

definition weekLogs :: "securityLog list" where
  "weekLogs =
     [demoLog ''login'' Success ''9.9.9.9'' 500000000,
      demoLog ''login'' Success ''1.1.1.1'' 600000000,
      demoLog ''login'' Success ''1.1.1.1'' 700000000,
      demoLog ''login'' Success ''1.1.1.1'' 800000000,
      demoLog ''login'' Success ''1.1.1.1'' 900000000,
      demoLog ''password_change'' Success ''1.1.1.1'' 996400000]"

definition demoSession :: "string \<Rightarrow> string \<Rightarrow> string \<Rightarrow> time \<Rightarrow> session" where
  "demoSession tok br ip t =
     \<lparr> userId = ''u1'', refreshToken = tok, deviceInfo = demoDevice br ip, isActive = True,
       lastActivity = t, expiresAt = t + 7 * msPerDay, createdAt = t \<rparr>"

definition sessionDb :: "session list \<Rightarrow> db" where
  "sessionDb ss = \<lparr> users = [demoUser], sessions = ss, devices = [], securityLogs = [] \<rparr>"

definition demoLogin :: "string \<Rightarrow> string \<Rightarrow> string option \<Rightarrow> string \<Rightarrow> string \<Rightarrow> loginRequest" where
  "demoLogin em pw code br ip =
     \<lparr> lr_email = em, lr_password = pw, twoFactorToken = code, lr_deviceInfo = demoDevice br ip \<rparr>"


text \<open>
  Three devices of the first user, two of them desktop browsers at the same address,
  and one session of each. The device ids are those \<open>generateDeviceId\<close> gives
  under the example environment.
\<close>

definition demoDeviceDoc :: "string \<Rightarrow> string \<Rightarrow> string \<Rightarrow> device" where
  "demoDeviceDoc br ip did =
     \<lparr> dev_userId = ''u1'', deviceId = did, deviceName = br @ '' on Linux'',
       dev_deviceType = ''desktop'', dev_browser = Some br, dev_os = Some ''Linux'',
       dev_ipAddress = ip, lastUsed = 1000, isTrusted = False \<rparr>"

definition demoPrincipal :: tokenPayload where
  "demoPrincipal = \<lparr> tp_userId = ''u1'', tp_email = ''ann@example.com'', tp_role = ''user'' \<rparr>"

definition threeSessionDb :: db where
  "threeSessionDb =
     \<lparr> users = [demoUser],
       sessions = [demoSession ''tok-chrome'' ''Chrome'' ''9.9.9.9'' 1000,
                   demoSession ''tok-firefox'' ''Firefox'' ''9.9.9.9'' 1000,
                   demoSession ''tok-away'' ''Firefox'' ''8.8.8.8'' 1000],
       devices = [demoDeviceDoc ''Chrome'' ''9.9.9.9'' ''Chrome-9.9.9.9'',
                  demoDeviceDoc ''Firefox'' ''9.9.9.9'' ''Firefox-9.9.9.9'',
                  demoDeviceDoc ''Firefox'' ''8.8.8.8'' ''Firefox-8.8.8.8''],
       securityLogs = [] \<rparr>"

text \<open>The first user with two-factor authentication enabled and the given backup codes.\<close>

definition tfaUser :: "string list \<Rightarrow> user" where
  "tfaUser codes =
     demoUser\<lparr>twoFactorEnabled := True, twoFactorSecret := Some ''JBSWY3DPEHPK3PXP'',
               backupCodes := Some codes\<rparr>"

text \<open>
  The collections with that user alone, with the backup codes AAAA1111 and BBBB2222
  and \<open>n\<close> failed logins counted.
\<close>

definition tfaAttemptsDb :: "int \<Rightarrow> db" where
  "tfaAttemptsDb n =
     \<lparr> users = [(tfaUser [''AAAA1111'', ''BBBB2222''])\<lparr>loginAttempts := n\<rparr>],
       sessions = [], devices = [], securityLogs = [] \<rparr>"

section \<open>Lockout: theorems\<close>

lemma incrementLoginAttempts_expired:
  "lockExpired u tnow \<Longrightarrow>
   incrementLoginAttempts m l tnow u = u\<lparr>loginAttempts := 1, lockUntil := None, isLocked := False\<rparr>"
  by (simp add: incrementLoginAttempts_def lockExpired_def)

lemma incrementLoginAttempts_count:
  "\<not> lockExpired u tnow \<Longrightarrow>
   loginAttempts (incrementLoginAttempts m l tnow u) = loginAttempts u + 1"
  by (simp add: incrementLoginAttempts_def lockExpired_def Let_def)

lemma incrementLoginAttempts_locks:
  "\<not> lockExpired u tnow \<Longrightarrow> loginAttempts u + 1 \<ge> m \<Longrightarrow> \<not> isLocked u \<Longrightarrow>
   lockUntil (incrementLoginAttempts m l tnow u) = Some (tnow + l * 60 * 1000)
   \<and> isLocked (incrementLoginAttempts m l tnow u)"
  by (simp add: incrementLoginAttempts_def lockExpired_def Let_def)

lemma incrementLoginAttempts_keeps:
  "\<not> lockExpired u tnow \<Longrightarrow> \<not> (loginAttempts u + 1 \<ge> m \<and> \<not> isLocked u) \<Longrightarrow>
   lockUntil (incrementLoginAttempts m l tnow u) = lockUntil u
   \<and> isLocked (incrementLoginAttempts m l tnow u) = isLocked u"
  by (auto simp add: incrementLoginAttempts_def lockExpired_def Let_def)

lemma five_failures:
  assumes "loginAttempts u = 0" "lockUntil u = None" "\<not> isLocked u"
  shows "recordFailures [t1, t2, t3, t4, t5] u
         = u\<lparr>loginAttempts := 5, lockUntil := Some (t5 + 1800000), isLocked := True\<rparr>"
  using assms
  by (simp add: recordFailures_def incrementLoginAttempts_def Let_def
      MAX_LOGIN_ATTEMPTS_def LOCKOUT_TIME_def)

text \<open>
  C1. Recording a failed login: when the existing lock has expired the counter is
  set to 1 and both lock fields are cleared; otherwise the counter goes up by one,
  and when the new count reaches the threshold 5 on an account whose lock flag is not
  set, \<open>lockUntil\<close> becomes the instant of the failure plus 30 minutes and the flag
  is set (in every other case the lock fields stay as they are). Hence five failures
  recorded on an account
  with a cleared counter (a new account, or one after a successful login) leave it
  locked from the fifth failure until 30 minutes later, and a further failure after
  that lock has expired sets the counter back to 1 and clears the lock.
\<close>

theorem recordFailure_lockout:
  "(lockExpired u tnow \<longrightarrow>
      incrementLoginAttempts MAX_LOGIN_ATTEMPTS LOCKOUT_TIME tnow u
        = u\<lparr>loginAttempts := 1, lockUntil := None, isLocked := False\<rparr>)
   \<and> (\<not> lockExpired u tnow \<longrightarrow>
      loginAttempts (incrementLoginAttempts MAX_LOGIN_ATTEMPTS LOCKOUT_TIME tnow u)
        = loginAttempts u + 1)
   \<and> (\<not> lockExpired u tnow \<and> loginAttempts u + 1 \<ge> 5 \<and> \<not> isLocked u \<longrightarrow>
      lockUntil (incrementLoginAttempts MAX_LOGIN_ATTEMPTS LOCKOUT_TIME tnow u)
        = Some (tnow + 30 * 60 * 1000)
      \<and> isLocked (incrementLoginAttempts MAX_LOGIN_ATTEMPTS LOCKOUT_TIME tnow u))
   \<and> (\<not> lockExpired u tnow \<and> \<not> (loginAttempts u + 1 \<ge> 5 \<and> \<not> isLocked u) \<longrightarrow>
      lockUntil (incrementLoginAttempts MAX_LOGIN_ATTEMPTS LOCKOUT_TIME tnow u) = lockUntil u
      \<and> isLocked (incrementLoginAttempts MAX_LOGIN_ATTEMPTS LOCKOUT_TIME tnow u) = isLocked u)
   \<and> (loginAttempts u = 0 \<and> lockUntil u = None \<and> \<not> isLocked u \<longrightarrow>
      (\<forall>t. t5 \<le> t \<and> t < t5 + 30 * 60 * 1000 \<longrightarrow>
         isAccountLocked (recordFailures [t1, t2, t3, t4, t5] u) t)
      \<and> (\<forall>t6. t6 > t5 + 30 * 60 * 1000 \<longrightarrow>
         loginAttempts (recordFailures [t1, t2, t3, t4, t5, t6] u) = 1
         \<and> lockUntil (recordFailures [t1, t2, t3, t4, t5, t6] u) = None
         \<and> \<not> isAccountLocked (recordFailures [t1, t2, t3, t4, t5, t6] u) t6))"
proof -
  have a: "lockExpired u tnow \<longrightarrow>
      incrementLoginAttempts MAX_LOGIN_ATTEMPTS LOCKOUT_TIME tnow u
        = u\<lparr>loginAttempts := 1, lockUntil := None, isLocked := False\<rparr>"
    by (simp add: incrementLoginAttempts_expired)
  have b: "\<not> lockExpired u tnow \<longrightarrow>
      loginAttempts (incrementLoginAttempts MAX_LOGIN_ATTEMPTS LOCKOUT_TIME tnow u)
        = loginAttempts u + 1"
    by (simp add: incrementLoginAttempts_count)
  have c: "\<not> lockExpired u tnow \<and> loginAttempts u + 1 \<ge> 5 \<and> \<not> isLocked u \<longrightarrow>
      lockUntil (incrementLoginAttempts MAX_LOGIN_ATTEMPTS LOCKOUT_TIME tnow u)
        = Some (tnow + 30 * 60 * 1000)
      \<and> isLocked (incrementLoginAttempts MAX_LOGIN_ATTEMPTS LOCKOUT_TIME tnow u)"
    using incrementLoginAttempts_locks [of u tnow MAX_LOGIN_ATTEMPTS LOCKOUT_TIME]
    by (simp add: MAX_LOGIN_ATTEMPTS_def LOCKOUT_TIME_def)
  have d: "\<not> lockExpired u tnow \<and> \<not> (loginAttempts u + 1 \<ge> 5 \<and> \<not> isLocked u) \<longrightarrow>
      lockUntil (incrementLoginAttempts MAX_LOGIN_ATTEMPTS LOCKOUT_TIME tnow u) = lockUntil u
      \<and> isLocked (incrementLoginAttempts MAX_LOGIN_ATTEMPTS LOCKOUT_TIME tnow u) = isLocked u"
    using incrementLoginAttempts_keeps [of u tnow MAX_LOGIN_ATTEMPTS LOCKOUT_TIME]
    by (simp add: MAX_LOGIN_ATTEMPTS_def)
  have e: "loginAttempts u = 0 \<and> lockUntil u = None \<and> \<not> isLocked u \<longrightarrow>
      (\<forall>t. t5 \<le> t \<and> t < t5 + 30 * 60 * 1000 \<longrightarrow>
         isAccountLocked (recordFailures [t1, t2, t3, t4, t5] u) t)
      \<and> (\<forall>t6. t6 > t5 + 30 * 60 * 1000 \<longrightarrow>
         loginAttempts (recordFailures [t1, t2, t3, t4, t5, t6] u) = 1
         \<and> lockUntil (recordFailures [t1, t2, t3, t4, t5, t6] u) = None
         \<and> \<not> isAccountLocked (recordFailures [t1, t2, t3, t4, t5, t6] u) t6)"
  proof (intro impI)
    assume h: "loginAttempts u = 0 \<and> lockUntil u = None \<and> \<not> isLocked u"
    then have five: "recordFailures [t1, t2, t3, t4, t5] u
         = u\<lparr>loginAttempts := 5, lockUntil := Some (t5 + 1800000), isLocked := True\<rparr>"
      by (simp add: five_failures)
    have six: "recordFailures [t1, t2, t3, t4, t5, t6] u
         = incrementLoginAttempts MAX_LOGIN_ATTEMPTS LOCKOUT_TIME t6
             (recordFailures [t1, t2, t3, t4, t5] u)" for t6
      by (simp add: recordFailures_def)
    show "(\<forall>t. t5 \<le> t \<and> t < t5 + 30 * 60 * 1000 \<longrightarrow>
         isAccountLocked (recordFailures [t1, t2, t3, t4, t5] u) t)
      \<and> (\<forall>t6. t6 > t5 + 30 * 60 * 1000 \<longrightarrow>
         loginAttempts (recordFailures [t1, t2, t3, t4, t5, t6] u) = 1
         \<and> lockUntil (recordFailures [t1, t2, t3, t4, t5, t6] u) = None
         \<and> \<not> isAccountLocked (recordFailures [t1, t2, t3, t4, t5, t6] u) t6)"
      unfolding six five
      by (simp add: isAccountLocked_def incrementLoginAttempts_def)
  qed
  from a b c d e show ?thesis by blast
qed

theorem recordFailure_lockout_witness:
  "isAccountLocked
     (recordFailures [1000, 2000, 3000, 4000, 5000]
        \<lparr>uid = ''u1'', email = ''a@b.c'', password = ''h'', firstName = None,
         isEmailVerified = True, emailVerificationToken = None,
         emailVerificationExpires = None, passwordResetToken = None,
         passwordResetExpires = None, loginAttempts = 0, lockUntil = None,
         isLocked = False, twoFactorEnabled = False, twoFactorSecret = None,
         backupCodes = None, role = ''user'', lastLogin = None, lastLoginIP = None\<rparr>)
     6000
   \<and> loginAttempts
     (recordFailures [1000, 2000, 3000, 4000, 5000, 1805001]
        \<lparr>uid = ''u1'', email = ''a@b.c'', password = ''h'', firstName = None,
         isEmailVerified = True, emailVerificationToken = None,
         emailVerificationExpires = None, passwordResetToken = None,
         passwordResetExpires = None, loginAttempts = 0, lockUntil = None,
         isLocked = False, twoFactorEnabled = False, twoFactorSecret = None,
         backupCodes = None, role = ''user'', lastLogin = None, lastLoginIP = None\<rparr>) = 1"
  using recordFailure_lockout
    [of "\<lparr>uid = ''u1'', email = ''a@b.c'', password = ''h'', firstName = None,
         isEmailVerified = True, emailVerificationToken = None,
         emailVerificationExpires = None, passwordResetToken = None,
         passwordResetExpires = None, loginAttempts = 0, lockUntil = None,
         isLocked = False, twoFactorEnabled = False, twoFactorSecret = None,
         backupCodes = None, role = ''user'', lastLogin = None, lastLoginIP = None\<rparr>"
        0 5000 1000 2000 3000 4000]
  by simp

section \<open>Password strength: theorems\<close>
















section \<open>Risk engine: theorems\<close>

lemma findIndex_Some:
  "findIndex P xs = Some i \<Longrightarrow> i < length xs \<and> P (xs ! i) \<and> (\<forall>j<i. \<not> P (xs ! j))"
proof (induction xs arbitrary: i)
  case Nil
  then show ?case by simp
next
  case (Cons x xs)
  show ?case
  proof (cases "P x")
    case True
    with Cons.prems show ?thesis by simp
  next
    case False
    with Cons.prems obtain k where k: "findIndex P xs = Some k" "i = Suc k"
      by auto
    from Cons.IH [OF k(1)] False k(2) show ?thesis
      by (auto simp: less_Suc_eq_0_disj)
  qed
qed

lemma findIndex_None: "findIndex P xs = None \<longleftrightarrow> (\<forall>x \<in> set xs. \<not> P x)"
  by (induction xs) auto

lemma addReason_mono: "0 \<le> p \<Longrightarrow> snd r \<le> snd (addReason c reason p r)"
  by (simp add: addReason_def)

lemma addReason_True: "c \<Longrightarrow> snd (addReason c reason p r) = snd r + p"
  by (simp add: addReason_def)

lemma loginRisk_failures_new_ip:
  assumes f: "recentFailures (now e) u logs \<ge> 3"
    and ne: "recentSuccessfulLogins (now e) u logs \<noteq> []"
    and ip: "ipAddress di \<notin> set (map log_ipAddress (recentSuccessfulLogins (now e) u logs))"
  shows "snd (loginRisk e u usr di logs) \<ge> 55"
proof -
  define recent where "recent = recentSuccessfulLogins (now e) u logs"
  define r1 where "r1 = addReason (recentFailures (now e) u logs \<ge> 3)
                 ''Multiple failed login attempts in short time'' 30 ([], 0::int)"
  define r2 where "r2 = addReason (ipAddress di \<notin> set (map log_ipAddress recent) \<and> length recent > 0)
                 ''Login from new IP address'' 25 r1"
  define r3 where "r3 = addReason (userAgent di \<notin> set (map log_userAgent recent) \<and> length recent > 0)
                 ''Login from new device or browser'' 20 r2"
  define r4 where "r4 = (case countryOf (getLocationFromIP (ipAddress di)) of
                  None \<Rightarrow> r3
                | Some c \<Rightarrow>
                   addReason (c \<notin> set (recentCountries recent) \<and> recentCountries recent \<noteq> [])
                     (''Login from new country: '' @ c) 30 r3)"
  define r5 where "r5 = addReason (length recent > 5
                          \<and> unusualHour (getHours e (now e))
                               (map (\<lambda>l. getHours e (log_createdAt l)) recent))
                 ''Login outside normal hours'' 15 r4"
  define r6 where "r6 = addReason (isLocked usr \<or> lockUntil usr \<noteq> None)
                 ''Account was recently locked'' 20 r5"
  have eq: "loginRisk e u usr di logs = r6"
    unfolding loginRisk_def Let_def r6_def r5_def r4_def r3_def r2_def r1_def recent_def
    by (rule refl)
  have 1: "snd r1 = 30"
    using f by (simp add: r1_def addReason_True)
  have 2: "snd r2 = 55"
    using ne ip 1 by (simp add: r2_def recent_def addReason_True)
  have 3: "snd r2 \<le> snd r3"
    unfolding r3_def by (rule addReason_mono) simp
  have 4: "snd r3 \<le> snd r4"
    unfolding r4_def by (cases "countryOf (getLocationFromIP (ipAddress di))") (simp_all add: addReason_mono)
  have 5: "snd r4 \<le> snd r5"
    unfolding r5_def by (rule addReason_mono) simp
  have 6: "snd r5 \<le> snd r6"
    unfolding r6_def by (rule addReason_mono) simp
  from 2 3 4 5 6 show ?thesis
    unfolding eq by linarith
qed

lemma checkSuspiciousLogin_frame:
  "users (snd (checkSuspiciousLogin e u di d)) = users d
   \<and> sessions (snd (checkSuspiciousLogin e u di d)) = sessions d
   \<and> devices (snd (checkSuspiciousLogin e u di d)) = devices d"
  by (simp add: checkSuspiciousLogin_def Let_def split: option.splits)

lemma checkSuspiciousLogin_result:
  "findIndex (\<lambda>x. uid x = u) (users d) = Some i \<Longrightarrow>
   riskScore (fst (checkSuspiciousLogin e u di d)) = snd (loginRisk e u (users d ! i) di (securityLogs d))
   \<and> isSuspicious (fst (checkSuspiciousLogin e u di d))
       = (snd (loginRisk e u (users d ! i) di (securityLogs d)) \<ge> 50)"
  by (simp add: checkSuspiciousLogin_def Let_def)

text \<open>
  C4, as the claim states it, fails: the address check of \<open>checkSuspiciousLogin\<close>
  reads the successful logins of the trailing 30 days only and adds nothing when
  there is none. Here the user has three failed logins in the last five minutes and
  one successful login, 45 days ago and from another address: the score is 30 and the
  login is not suspicious.
\<close>

theorem checkSuspiciousLogin_stale_history_counterexample:
  "recentFailures 4000000000 ''u1'' staleLoginLogs = 3
   \<and> take 10 (newestFirst (successfulLogins ''u1'' staleLoginLogs)) \<noteq> []
   \<and> ''9.9.9.9'' \<notin> set (map log_ipAddress
                          (take 10 (newestFirst (successfulLogins ''u1'' staleLoginLogs))))
   \<and> riskScore (fst (checkSuspiciousLogin (demoEnv 4000000000 ''t1'' True) ''u1''
                      (demoDevice ''Firefox'' ''9.9.9.9'') (demoDb staleLoginLogs))) = 30
   \<and> \<not> isSuspicious (fst (checkSuspiciousLogin (demoEnv 4000000000 ''t1'' True) ''u1''
                      (demoDevice ''Firefox'' ''9.9.9.9'') (demoDb staleLoginLogs)))"
  by (simp add: recentFailures_def staleLoginLogs_def demoLog_def newestFirst_def
      successfulLogins_def checkSuspiciousLogin_def loginRisk_def addReason_def demoEnv_def demoDevice_def demoDb_def
      demoUser_def recentSuccessfulLogins_def Let_def getLocationFromIP_def startsWith_def
      countryOf_def)

text \<open>
  C4, amended. For every stored user with at least 3 failed login events in the
  trailing 15 minutes, whose last 10 successful logins of the trailing 30 days are
  not empty and do not have the current address, the login risk score is at least 55
  and the result is marked suspicious.
\<close>

theorem checkSuspiciousLogin_failures_new_ip:
  assumes "findIndex (\<lambda>x. uid x = u) (users d) = Some i"
    and "recentFailures (now e) u (securityLogs d) \<ge> 3"
    and "recentSuccessfulLogins (now e) u (securityLogs d) \<noteq> []"
    and "ipAddress di
           \<notin> set (map log_ipAddress (recentSuccessfulLogins (now e) u (securityLogs d)))"
  shows "riskScore (fst (checkSuspiciousLogin e u di d)) \<ge> 55
         \<and> isSuspicious (fst (checkSuspiciousLogin e u di d))"
  using loginRisk_failures_new_ip [OF assms(2,3,4), of "users d ! i"]
    checkSuspiciousLogin_result [OF assms(1), of e di]
  by simp

theorem checkSuspiciousLogin_failures_new_ip_witness:
  "riskScore (fst (checkSuspiciousLogin (demoEnv 4000000000 ''t1'' True) ''u1''
                     (demoDevice ''Firefox'' ''9.9.9.9'') (demoDb freshLoginLogs))) \<ge> 55
   \<and> isSuspicious (fst (checkSuspiciousLogin (demoEnv 4000000000 ''t1'' True) ''u1''
                     (demoDevice ''Firefox'' ''9.9.9.9'') (demoDb freshLoginLogs)))"
proof -
  have h1: "findIndex (\<lambda>x. uid x = ''u1'') (users (demoDb freshLoginLogs)) = Some 0"
    by (simp add: demoDb_def demoUser_def)
  have h2: "recentFailures (now (demoEnv 4000000000 ''t1'' True)) ''u1''
              (securityLogs (demoDb freshLoginLogs)) \<ge> 3"
    by (simp add: recentFailures_def freshLoginLogs_def demoLog_def demoEnv_def demoDb_def)
  have rs: "recentSuccessfulLogins (now (demoEnv 4000000000 ''t1'' True)) ''u1''
              (securityLogs (demoDb freshLoginLogs))
            = [demoLog ''login'' Success ''8.8.8.8'' 3999400000]"
    by (simp add: recentSuccessfulLogins_def successfulLogins_def newestFirst_def
        freshLoginLogs_def demoLog_def demoEnv_def demoDb_def)
  have h3: "recentSuccessfulLogins (now (demoEnv 4000000000 ''t1'' True)) ''u1''
              (securityLogs (demoDb freshLoginLogs)) \<noteq> []"
    by (simp add: rs)
  have h4: "ipAddress (demoDevice ''Firefox'' ''9.9.9.9'')
              \<notin> set (map log_ipAddress
                     (recentSuccessfulLogins (now (demoEnv 4000000000 ''t1'' True)) ''u1''
                        (securityLogs (demoDb freshLoginLogs))))"
    by (simp add: rs demoLog_def demoDevice_def)
  show ?thesis
    by (rule checkSuspiciousLogin_failures_new_ip [OF h1 h2 h3 h4])
qed

text \<open>
  C6, as the claim states it, fails twice on one input. The address check of
  \<open>checkSuspiciousPasswordChange\<close> reads only the five newest successful events of
  the trailing 7 days, and the second check adds 30 as soon as one password change
  event lies in the trailing 24 hours. Here the current address 9.9.9.9 is the address
  of a successful login of the last week and exactly one password change happened in
  the last day, yet the score is 40 + 30.
\<close>

theorem checkSuspiciousPasswordChange_counterexample:
  "''9.9.9.9'' \<in> set (map log_ipAddress (activityLastWeek 1000000000 ''u1'' weekLogs))
   \<and> recentPasswordChanges 1000000000 ''u1'' weekLogs = 1
   \<and> riskScore (fst (checkSuspiciousPasswordChange (demoEnv 1000000000 ''t1'' True) ''u1''
                      (demoDevice ''Firefox'' ''9.9.9.9'') (demoDb weekLogs))) = 70
   \<and> isSuspicious (fst (checkSuspiciousPasswordChange (demoEnv 1000000000 ''t1'' True) ''u1''
                      (demoDevice ''Firefox'' ''9.9.9.9'') (demoDb weekLogs)))"
  by (simp add: activityLastWeek_def recentActivity_def recentPasswordChanges_def
      weekLogs_def demoLog_def newestFirst_def checkSuspiciousPasswordChange_def passwordChangeRisk_def addReason_def
      demoEnv_def demoDevice_def demoDb_def demoUser_def Let_def)

text \<open>
  C6, amended. The password-change risk score adds 40 exactly when the five newest
  successful login or password-change events of the trailing 7 days are not empty
  and none of them has the current address, adds 30 exactly when at least one
  password-change event lies in the trailing 24 hours, and the result is marked
  suspicious if and only if the score is at least 40. The events that are read are at
  most five, all of them successful login or password-change events of the user in
  the trailing 7 days.
\<close>

theorem checkSuspiciousPasswordChange_score:
  "riskScore (fst (checkSuspiciousPasswordChange e u di d))
     = (if recentActivity (now e) u (securityLogs d) \<noteq> []
           \<and> ipAddress di
                \<notin> set (map log_ipAddress (recentActivity (now e) u (securityLogs d)))
        then 40 else 0)
       + (if recentPasswordChanges (now e) u (securityLogs d) \<ge> 1 then 30 else 0)
   \<and> (isSuspicious (fst (checkSuspiciousPasswordChange e u di d))
        \<longleftrightarrow> riskScore (fst (checkSuspiciousPasswordChange e u di d)) \<ge> 40)
   \<and> length (recentActivity (now e) u (securityLogs d)) \<le> 5
   \<and> set (recentActivity (now e) u (securityLogs d))
        \<subseteq> set (activityLastWeek (now e) u (securityLogs d))"
proof -
  have "set (recentActivity (now e) u (securityLogs d))
          \<subseteq> set (activityLastWeek (now e) u (securityLogs d))"
    unfolding recentActivity_def newestFirst_def
    by (metis set_sort set_take_subset)
  moreover have "length (recentActivity (now e) u (securityLogs d)) \<le> 5"
    by (simp add: recentActivity_def)
  moreover have "riskScore (fst (checkSuspiciousPasswordChange e u di d))
     = (if recentActivity (now e) u (securityLogs d) \<noteq> []
           \<and> ipAddress di
                \<notin> set (map log_ipAddress (recentActivity (now e) u (securityLogs d)))
        then 40 else 0)
       + (if recentPasswordChanges (now e) u (securityLogs d) \<ge> 1 then 30 else 0)"
    by (simp add: checkSuspiciousPasswordChange_def passwordChangeRisk_def addReason_def Let_def Suc_le_eq)
  moreover have "isSuspicious (fst (checkSuspiciousPasswordChange e u di d))
        \<longleftrightarrow> riskScore (fst (checkSuspiciousPasswordChange e u di d)) \<ge> 40"
    by (simp add: checkSuspiciousPasswordChange_def Let_def)
  ultimately show ?thesis by blast
qed

theorem checkSuspiciousPasswordChange_score_witness:
  "riskScore (fst (checkSuspiciousPasswordChange (demoEnv 1000000000 ''t1'' True) ''u1''
                     (demoDevice ''Firefox'' ''1.1.1.1'') (demoDb weekLogs))) = 30
   \<and> \<not> isSuspicious (fst (checkSuspiciousPasswordChange (demoEnv 1000000000 ''t1'' True)
                     ''u1'' (demoDevice ''Firefox'' ''1.1.1.1'') (demoDb weekLogs)))"
proof -
  have ra: "map log_ipAddress (recentActivity (now (demoEnv 1000000000 ''t1'' True)) ''u1''
              (securityLogs (demoDb weekLogs)))
            = [''1.1.1.1'', ''1.1.1.1'', ''1.1.1.1'', ''1.1.1.1'', ''1.1.1.1'']"
    by (simp add: recentActivity_def activityLastWeek_def newestFirst_def weekLogs_def
        demoLog_def demoEnv_def demoDb_def)
  have pc: "recentPasswordChanges (now (demoEnv 1000000000 ''t1'' True)) ''u1''
              (securityLogs (demoDb weekLogs)) = 1"
    by (simp add: recentPasswordChanges_def weekLogs_def demoLog_def demoEnv_def demoDb_def)
  have ip: "ipAddress (demoDevice ''Firefox'' ''1.1.1.1'') = ''1.1.1.1''"
    by (simp add: demoDevice_def)
  show ?thesis
    using checkSuspiciousPasswordChange_score
      [of "demoEnv 1000000000 ''t1'' True" "''u1''" "demoDevice ''Firefox'' ''1.1.1.1''"
          "demoDb weekLogs"]
    by (simp add: ra pc ip)
qed

section \<open>Login: the two parts of the handler\<close>

text \<open>
  On the document that \<open>login\<close> holds the second factor is the one-time-code
  check without a secret: no backup code is used and the document stays as it is.
\<close>

lemma verifySecondFactor_loaded:
  "verifySecondFactor e (loadForLogin u) tok
   = map_option (\<lambda>isValidToken. (isValidToken, False, loadForLogin u))
       (totpVerify e None tok (now e))"
  by (simp add: verifySecondFactor_def loadForLogin_def split: option.splits)

lemma loadForLogin_simps:
  "isAccountLocked (loadForLogin u) t = isAccountLocked u t"
  "password (loadForLogin u) = password u"
  "twoFactorEnabled (loadForLogin u) = twoFactorEnabled u"
  "uid (loadForLogin u) = uid u"
  "email (loadForLogin u) = email u"
  by (simp_all add: loadForLogin_def isAccountLocked_def)

lemma checkCredentials_Inl:
  "checkCredentials e r d = Inl (resp, d') \<Longrightarrow>
     sessions d' = sessions d \<and> devices d' = devices d
     \<and> length (users d') = length (users d)
     \<and> \<not> (statusCode resp = 200 \<and> success resp)"
  by (auto simp: checkCredentials_def Let_def reply_def loginError_def verifySecondFactor_loaded
      split: option.splits if_splits)

text \<open>
  The early returns of \<open>login\<close> change at most the lockout fields of the user
  found, and only on a wrong password.
\<close>

lemma checkCredentials_Inl_users:
  assumes "checkCredentials e r d = Inl (resp, d')"
  shows "users d' = users d
         \<or> (\<exists>i. findIndex (\<lambda>u. email u = castEmail (toLowerCase (lr_email r))) (users d) = Some i
               \<and> \<not> bcryptCompare e (lr_password r) (password (users d ! i))
               \<and> users d' = (users d)[i := incrementLoginAttempts (maxLoginAttempts e)
                                             (lockoutTime e) (now e) (users d ! i)])"
  using assms
  by (auto simp: checkCredentials_def Let_def verifySecondFactor_loaded loadForLogin_simps
      split: option.splits if_splits)

text \<open>
  \<open>login\<close> goes on with the collections as they were, for a stored user that is
  not locked, with the right password and, if two-factor authentication is enabled,
  a code that the one-time-code check without a secret accepts.
\<close>

lemma checkCredentials_Inr:
  assumes "checkCredentials e r d = Inr (i, u, d1)"
  shows "findIndex (\<lambda>u. email u = castEmail (toLowerCase (lr_email r))) (users d) = Some i
     \<and> u = loadForLogin (users d ! i) \<and> d1 = d
     \<and> bcryptCompare e (lr_password r) (password (users d ! i))
     \<and> \<not> isAccountLocked (users d ! i) (now e)
     \<and> (twoFactorEnabled (users d ! i) \<longrightarrow>
          (\<exists>tok. twoFactorToken r = Some tok \<and> tok \<noteq> []
             \<and> totpVerify e None tok (now e) = Some True))"
  using assms
  by (auto simp: checkCredentials_def Let_def verifySecondFactor_loaded loadForLogin_simps
      split: option.splits if_splits)

lemma completeLogin_users:
  "users (snd (completeLogin e r i u d))
   = (users d)[i := (resetLoginAttempts (users d ! i))
                      \<lparr>lastLogin := Some (now e),
                       lastLoginIP := Some (ipAddress (lr_deviceInfo r))\<rparr>]"
  by (cases "i < length (users d)")
     (simp_all add: completeLogin_def Let_def checkSuspiciousLogin_frame list_update_beyond
        split: option.splits)

section \<open>Sessions: theorems\<close>

lemma refresh_disj:
  "snd (refreshTokenHandler e tokOpt d) = d
     \<and> statusCode (fst (refreshTokenHandler e tokOpt d)) \<noteq> 200
   \<or> (\<exists>tok k tk. tokOpt = Some tok
         \<and> findActiveSession tok (now e) (sessions d) = Some k
         \<and> newRefreshToken tk \<notin> set (map refreshToken (removeAt k (sessions d)))
         \<and> fst (refreshTokenHandler e tokOpt d)
             = \<lparr> statusCode = 200, success = True, message = None, requires2FA = False,
                 tokens = Some tk \<rparr>
         \<and> snd (refreshTokenHandler e tokOpt d)
             = d\<lparr>sessions := (sessions d)
                    [k := (sessions d ! k)\<lparr>refreshToken := newRefreshToken tk,
                                            lastActivity := now e\<rparr>]\<rparr>)"
  by (auto simp: refreshTokenHandler_def reply_def refreshError_def split: option.splits)

lemma refresh_cases:
  obtains (same) "snd (refreshTokenHandler e tokOpt d) = d"
      "statusCode (fst (refreshTokenHandler e tokOpt d)) \<noteq> 200"
  | (rotated) tok k tk where "tokOpt = Some tok"
      "findActiveSession tok (now e) (sessions d) = Some k"
      "newRefreshToken tk \<notin> set (map refreshToken (removeAt k (sessions d)))"
      "fst (refreshTokenHandler e tokOpt d)
         = \<lparr> statusCode = 200, success = True, message = None, requires2FA = False,
             tokens = Some tk \<rparr>"
      "snd (refreshTokenHandler e tokOpt d)
         = d\<lparr>sessions := (sessions d)
                [k := (sessions d ! k)\<lparr>refreshToken := newRefreshToken tk,
                                        lastActivity := now e\<rparr>]\<rparr>"
  using refresh_disj [of e tokOpt d] by blast

lemma findActiveSession_Some:
  "findActiveSession tok t ss = Some k \<Longrightarrow>
     k < length ss \<and> refreshToken (ss ! k) = tok \<and> isActive (ss ! k) \<and> expiresAt (ss ! k) > t"
  unfolding findActiveSession_def by (drule findIndex_Some) simp

lemma findActiveSession_None:
  "findActiveSession tok t ss = None \<longleftrightarrow>
     (\<forall>s \<in> set ss. \<not> (refreshToken s = tok \<and> isActive s \<and> expiresAt s > t))"
  unfolding findActiveSession_def by (simp add: findIndex_None)

lemma distinct_map_nth:
  "distinct (map f xs) \<Longrightarrow> j < length xs \<Longrightarrow> k < length xs \<Longrightarrow> f (xs ! j) = f (xs ! k) \<Longrightarrow> j = k"
  by (metis length_map nth_eq_iff_index_eq nth_map)

lemma rotate_old_gone:
  assumes dist: "distinct (map refreshToken ss)"
    and k: "k < length ss" "refreshToken (ss ! k) = old"
    and ne: "new \<noteq> old"
  shows "\<forall>s \<in> set (ss[k := (ss ! k)\<lparr>refreshToken := new, lastActivity := la\<rparr>]). refreshToken s \<noteq> old"
proof
  fix s assume "s \<in> set (ss[k := (ss ! k)\<lparr>refreshToken := new, lastActivity := la\<rparr>])"
  then obtain j where j: "j < length ss" "s = (ss[k := (ss ! k)\<lparr>refreshToken := new, lastActivity := la\<rparr>]) ! j"
    by (auto simp: in_set_conv_nth)
  show "refreshToken s \<noteq> old"
  proof (cases "j = k")
    case True
    with j k ne show ?thesis by simp
  next
    case False
    with j have "s = ss ! j" by simp
    with distinct_map_nth [OF dist j(1) k(1)] False k(2) show ?thesis by auto
  qed
qed






lemma completeLogin_sessions:
  "sessions (snd (completeLogin e r i u d)) = sessions d
     \<and> \<not> (statusCode (fst (completeLogin e r i u d)) = 200
          \<and> success (fst (completeLogin e r i u d)))
   \<or> (\<exists>s. sessions (snd (completeLogin e r i u d)) = sessions d @ [s]
         \<and> expiresAt s = sessionExpiry e \<and> isActive s
         \<and> refreshToken s \<notin> set (map refreshToken (sessions d)))"
  by (simp add: completeLogin_def Let_def loginError_def reply_def checkSuspiciousLogin_frame
      split: option.splits)

lemma login_sessions:
  "sessions (snd (login e r d)) = sessions d
     \<and> \<not> (statusCode (fst (login e r d)) = 200 \<and> success (fst (login e r d)))
   \<or> (\<exists>s. sessions (snd (login e r d)) = sessions d @ [s]
         \<and> expiresAt s = sessionExpiry e \<and> isActive s
         \<and> refreshToken s \<notin> set (map refreshToken (sessions d)))"
proof (cases "checkCredentials e r d")
  case (Inl out)
  obtain resp d' where out: "out = (resp, d')" by (cases out)
  from checkCredentials_Inl [of e r d resp d'] Inl out show ?thesis
    by (simp add: login_def)
next
  case (Inr c)
  obtain i u d1 where c: "c = (i, u, d1)" by (cases c)
  from checkCredentials_Inr [of e r d i u d1] Inr c have s: "d1 = d" by simp
  from Inr c have l: "login e r d = completeLogin e r i u d1" by (simp add: login_def)
  show ?thesis
    using completeLogin_sessions [of e r i u d] by (simp add: l s)
qed

lemma login_distinct:
  assumes "distinct (map refreshToken (sessions d))"
  shows "distinct (map refreshToken (sessions (snd (login e r d))))"
  using login_sessions [of e r d] assms by auto

lemma refresh_unknown_token:
  "tok \<noteq> [] \<Longrightarrow> findActiveSession tok (now e) (sessions d) = None \<Longrightarrow>
   statusCode (fst (refreshTokenHandler e (Some tok) d)) = 401"
  by (simp add: refreshTokenHandler_def reply_def split: option.splits)

lemma refresh_ok_nonempty:
  "statusCode (fst (refreshTokenHandler e (Some tok) d)) = 200 \<Longrightarrow> tok \<noteq> []"
  by (auto simp: refreshTokenHandler_def reply_def)

text \<open>
  C2. The stored refresh tokens are pairwise distinct (the schema declares the field
  unique). When a refresh with the token \<open>old\<close> succeeds and the new refresh token
  differs from \<open>old\<close>, the session that was found now stores the new token, the
  lookup of an active session by \<open>old\<close> returns none at every instant, and a
  further refresh with \<open>old\<close> is answered with status 401. The lookup returns only
  a session that has the token, is active and expires after the instant of the
  lookup; it returns none when every session with the token is inactive or expired.
\<close>

theorem refresh_rotation_invalidates_old:
  assumes "distinct (map refreshToken (sessions d))"
    and "statusCode (fst (refreshTokenHandler e (Some old) d)) = 200"
    and "tokens (fst (refreshTokenHandler e (Some old) d)) = Some tk"
    and "newRefreshToken tk \<noteq> old"
  shows "(\<exists>k. findActiveSession old (now e) (sessions d) = Some k
            \<and> refreshToken (sessions (snd (refreshTokenHandler e (Some old) d)) ! k)
                = newRefreshToken tk)
       \<and> (\<forall>t. findActiveSession old t (sessions (snd (refreshTokenHandler e (Some old) d)))
               = None)
       \<and> (\<forall>e'. statusCode (fst (refreshTokenHandler e' (Some old)
                                   (snd (refreshTokenHandler e (Some old) d)))) = 401)
       \<and> (\<forall>tok t ss k. findActiveSession tok t ss = Some k \<longrightarrow>
            k < length ss \<and> refreshToken (ss ! k) = tok \<and> isActive (ss ! k)
            \<and> t < expiresAt (ss ! k))
       \<and> (\<forall>tok t ss. (\<forall>s \<in> set ss. refreshToken s = tok \<longrightarrow> \<not> isActive s \<or> expiresAt s \<le> t)
            \<longrightarrow> findActiveSession tok t ss = None)"
proof -
  let ?d' = "snd (refreshTokenHandler e (Some old) d)"
  obtain k where k: "findActiveSession old (now e) (sessions d) = Some k"
    and d': "?d' = d\<lparr>sessions := (sessions d)
                    [k := (sessions d ! k)\<lparr>refreshToken := newRefreshToken tk,
                                            lastActivity := now e\<rparr>]\<rparr>"
  proof (cases e "Some old" d rule: refresh_cases)
    case same
    with assms(2) show ?thesis by simp
  next
    case (rotated tok k tk')
    with assms(3) that show ?thesis by simp
  qed
  from findActiveSession_Some [OF k]
  have kk: "k < length (sessions d)" "refreshToken (sessions d ! k) = old"
    by simp_all
  have stored: "refreshToken (sessions ?d' ! k) = newRefreshToken tk"
    using kk(1) by (simp add: d')
  have gone: "findActiveSession old t (sessions ?d') = None" for t
    using rotate_old_gone [OF assms(1) kk assms(4)]
    by (simp add: d' findActiveSession_None)
  have rejected: "statusCode (fst (refreshTokenHandler e' (Some old) ?d')) = 401" for e'
    using refresh_unknown_token [OF refresh_ok_nonempty [OF assms(2)] gone] .
  have excl: "findActiveSession tok t ss = None"
    if "\<forall>s \<in> set ss. refreshToken s = tok \<longrightarrow> \<not> isActive s \<or> expiresAt s \<le> t" for tok t ss
    using that by (fastforce simp: findActiveSession_None)
  from k stored gone rejected excl findActiveSession_Some show ?thesis
    by blast
qed

theorem refresh_rotation_invalidates_old_witness:
  "findActiveSession ''old-token'' 5000
     (sessions (snd (refreshTokenHandler (demoEnv 2000 ''new-token'' True) (Some ''old-token'')
                       (sessionDb [demoSession ''old-token'' ''Firefox'' ''9.9.9.9'' 1000]))))
     = None
   \<and> statusCode (fst (refreshTokenHandler (demoEnv 3000 ''newer-token'' True) (Some ''old-token'')
        (snd (refreshTokenHandler (demoEnv 2000 ''new-token'' True) (Some ''old-token'')
                (sessionDb [demoSession ''old-token'' ''Firefox'' ''9.9.9.9'' 1000]))))) = 401"
proof -
  let ?d = "sessionDb [demoSession ''old-token'' ''Firefox'' ''9.9.9.9'' 1000]"
  let ?e = "demoEnv 2000 ''new-token'' True"
  have r: "fst (refreshTokenHandler ?e (Some ''old-token'') ?d)
           = \<lparr> statusCode = 200, success = True, message = None, requires2FA = False,
               tokens = Some \<lparr> accessToken = ''access-new-token'',
                               newRefreshToken = ''new-token'' \<rparr> \<rparr>"
    by (simp add: refreshTokenHandler_def demoEnv_def sessionDb_def demoSession_def
        demoUser_def findActiveSession_def msPerDay_def isAccountLocked_def removeAt_def)
  have h1: "distinct (map refreshToken (sessions ?d))"
    by (simp add: sessionDb_def)
  have h2: "statusCode (fst (refreshTokenHandler ?e (Some ''old-token'') ?d)) = 200"
    by (simp add: r)
  have h3: "tokens (fst (refreshTokenHandler ?e (Some ''old-token'') ?d))
            = Some \<lparr> accessToken = ''access-new-token'', newRefreshToken = ''new-token'' \<rparr>"
    by (simp add: r)
  have h4: "newRefreshToken \<lparr> accessToken = ''access-new-token'', newRefreshToken = ''new-token'' \<rparr>
            \<noteq> ''old-token''"
    by simp
  from refresh_rotation_invalidates_old [OF h1 h2 h3 h4] show ?thesis
    by blast
qed









section \<open>Devices: theorems\<close>

lemma revokeDevice_found:
  assumes "tp_userId p \<noteq> []"
    and "findIndex (\<lambda>x. dev_userId x = tp_userId p \<and> deviceId x = devId) (devices d) = Some k"
  shows "fst (revokeDevice e (Some p) devId di d) = reply 200 True ''Device revoked successfully''"
    and "sessions (snd (revokeDevice e (Some p) devId di d))
         = map (\<lambda>s. if sessionMatchesDevice (tp_userId p) (devices d ! k) s
                     then s\<lparr>isActive := False\<rparr> else s) (sessions d)"
    and "devices (snd (revokeDevice e (Some p) devId di d)) = removeAt k (devices d)"
    and "users (snd (revokeDevice e (Some p) devId di d)) = users d"
  using assms by (simp_all add: revokeDevice_def Let_def)

text \<open>
  C7, as the claim states it, fails in its second half: \<open>revokeDevice\<close> selects the
  sessions by user, device type and address only. Here the user has a Chrome and a
  Firefox device, both desktops at the same address, with one active session each;
  the second session has the metadata and the device id of the Firefox device, not
  those of the Chrome device, and revoking the Chrome device deactivates it.
\<close>

theorem revokeDevice_other_device_counterexample:
  "sessionOfDevice (devices threeSessionDb ! 1) (sessions threeSessionDb ! 1)
   \<and> \<not> sessionOfDevice (devices threeSessionDb ! 0) (sessions threeSessionDb ! 1)
   \<and> deviceId (devices threeSessionDb ! 1)
       = generateDeviceId (demoEnv 2000 ''t1'' True) (deviceInfo (sessions threeSessionDb ! 1))
   \<and> deviceId (devices threeSessionDb ! 0)
       \<noteq> generateDeviceId (demoEnv 2000 ''t1'' True) (deviceInfo (sessions threeSessionDb ! 1))
   \<and> isActive (sessions threeSessionDb ! 1)
   \<and> statusCode (fst (revokeDevice (demoEnv 2000 ''t1'' True) (Some demoPrincipal)
                        ''Chrome-9.9.9.9'' (demoDevice ''Chrome'' ''9.9.9.9'') threeSessionDb)) = 200
   \<and> \<not> isActive (sessions (snd (revokeDevice (demoEnv 2000 ''t1'' True) (Some demoPrincipal)
                        ''Chrome-9.9.9.9'' (demoDevice ''Chrome'' ''9.9.9.9'') threeSessionDb)) ! 1)"
  by (simp add: revokeDevice_def threeSessionDb_def demoDeviceDoc_def demoSession_def
      demoDevice_def demoPrincipal_def sessionOfDevice_def sessionMatchesDevice_def
      generateDeviceId_def demoEnv_def reply_def Let_def)

text \<open>
  C7, amended. For every user and every device the user owns, revoking that device
  deactivates every session of that user whose device type and address are those of
  the revoked device, among them every session whose device metadata matches the
  revoked device; every session of the user with another device type or another
  address, and every session of another user, is left as it is, so it remains active
  if it was.
\<close>

theorem revokeDevice_cascade:
  assumes "tp_userId p \<noteq> []"
    and "findIndex (\<lambda>x. dev_userId x = tp_userId p \<and> deviceId x = devId) (devices d) = Some k"
  shows "length (sessions (snd (revokeDevice e (Some p) devId di d))) = length (sessions d)
       \<and> (\<forall>j < length (sessions d).
            sessionMatchesDevice (tp_userId p) (devices d ! k) (sessions d ! j) \<longrightarrow>
              sessions (snd (revokeDevice e (Some p) devId di d)) ! j
                = (sessions d ! j)\<lparr>isActive := False\<rparr>)
       \<and> (\<forall>j < length (sessions d).
            sessionOfDevice (devices d ! k) (sessions d ! j) \<longrightarrow>
              \<not> isActive (sessions (snd (revokeDevice e (Some p) devId di d)) ! j))
       \<and> (\<forall>j < length (sessions d).
            \<not> sessionMatchesDevice (tp_userId p) (devices d ! k) (sessions d ! j) \<longrightarrow>
              sessions (snd (revokeDevice e (Some p) devId di d)) ! j = sessions d ! j)
       \<and> devices (snd (revokeDevice e (Some p) devId di d)) = removeAt k (devices d)"
proof -
  from findIndex_Some [OF assms(2)] have own: "dev_userId (devices d ! k) = tp_userId p"
    by simp
  have m: "sessionOfDevice (devices d ! k) s \<Longrightarrow> sessionMatchesDevice (tp_userId p) (devices d ! k) s" for s
    by (simp add: sessionOfDevice_def sessionMatchesDevice_def own)
  show ?thesis
    using m by (auto simp: revokeDevice_found [OF assms])
qed

theorem revokeDevice_cascade_witness:
  "\<not> isActive (sessions (snd (revokeDevice (demoEnv 2000 ''t1'' True) (Some demoPrincipal)
                        ''Chrome-9.9.9.9'' (demoDevice ''Chrome'' ''9.9.9.9'') threeSessionDb)) ! 0)
   \<and> sessions (snd (revokeDevice (demoEnv 2000 ''t1'' True) (Some demoPrincipal)
                        ''Chrome-9.9.9.9'' (demoDevice ''Chrome'' ''9.9.9.9'') threeSessionDb)) ! 2
       = demoSession ''tok-away'' ''Firefox'' ''8.8.8.8'' 1000"
proof -
  have h1: "tp_userId demoPrincipal \<noteq> []"
    by (simp add: demoPrincipal_def)
  have h2: "findIndex (\<lambda>x. dev_userId x = tp_userId demoPrincipal \<and> deviceId x = ''Chrome-9.9.9.9'')
              (devices threeSessionDb) = Some 0"
    by (simp add: demoPrincipal_def threeSessionDb_def demoDeviceDoc_def)
  have s0: "sessionOfDevice (devices threeSessionDb ! 0) (sessions threeSessionDb ! 0)"
    by (simp add: threeSessionDb_def demoDeviceDoc_def demoSession_def demoDevice_def
        sessionOfDevice_def)
  have s2: "\<not> sessionMatchesDevice (tp_userId demoPrincipal) (devices threeSessionDb ! 0)
               (sessions threeSessionDb ! 2)"
    by (simp add: threeSessionDb_def demoDeviceDoc_def demoSession_def demoDevice_def
        sessionMatchesDevice_def)
  have l: "(0::nat) < length (sessions threeSessionDb)" "(2::nat) < length (sessions threeSessionDb)"
    by (simp_all add: threeSessionDb_def)
  have v: "sessions threeSessionDb ! 2 = demoSession ''tok-away'' ''Firefox'' ''8.8.8.8'' 1000"
    by (simp add: threeSessionDb_def)
  from revokeDevice_cascade [OF h1 h2, of "demoEnv 2000 ''t1'' True" "demoDevice ''Chrome'' ''9.9.9.9''"]
    s0 s2 l v
  show ?thesis by metis
qed

section \<open>Password reset and verification mail: theorems\<close>

lemma forgotPassword_mail_ok:
  "mailOk e \<Longrightarrow>
   fst (forgotPassword e em di d)
     = reply 200 True ''If the email exists, a password reset link has been sent.''"
  by (simp add: forgotPassword_def Let_def split: option.splits)

text \<open>
  C8 on the code. For the verification mail the answer tells whether the account
  exists: status 200 with the message that the mail was sent for an unverified
  account, status 200 with the neutral message when there is no account, status 400
  for a verified account. For the password reset the answers agree while the mailer
  delivers, and differ (500 against 200) when it fails.
\<close>

theorem resendVerification_reveals_account:
  "fst (resendVerificationEmail (demoEnv 2000 ''t1'' True) ''ann@example.com''
          (demoDevice ''Firefox'' ''9.9.9.9'') (demoDb []))
     = reply 200 True ''Verification email sent successfully''
   \<and> fst (resendVerificationEmail (demoEnv 2000 ''t1'' True) ''ann@example.com''
          (demoDevice ''Firefox'' ''9.9.9.9'') ((demoDb [])\<lparr>users := []\<rparr>))
     = reply 200 True ''If the email exists, a verification link has been sent.''
   \<and> fst (resendVerificationEmail (demoEnv 2000 ''t1'' True) ''ann@example.com''
          (demoDevice ''Firefox'' ''9.9.9.9'')
          ((demoDb [])\<lparr>users := [demoUser\<lparr>isEmailVerified := True\<rparr>]\<rparr>))
     = reply 400 False ''Email is already verified''
   \<and> fst (forgotPassword (demoEnv 2000 ''t1'' False) ''ann@example.com''
          (demoDevice ''Firefox'' ''9.9.9.9'') (demoDb []))
     = reply 500 False ''Failed to send password reset email''
   \<and> fst (forgotPassword (demoEnv 2000 ''t1'' False) ''ann@example.com''
          (demoDevice ''Firefox'' ''9.9.9.9'') ((demoDb [])\<lparr>users := []\<rparr>))
     = reply 200 True ''If the email exists, a password reset link has been sent.''
   \<and> fst (forgotPassword (demoEnv 2000 ''t1'' True) ''ann@example.com''
          (demoDevice ''Firefox'' ''9.9.9.9'') (demoDb []))
     = fst (forgotPassword (demoEnv 2000 ''t1'' True) ''ann@example.com''
          (demoDevice ''Firefox'' ''9.9.9.9'') ((demoDb [])\<lparr>users := []\<rparr>))"
proof -
  have l: "castEmail (toLowerCase ''ann@example.com'') = ''ann@example.com''"
    by code_simp
  show ?thesis
    by (simp add: resendVerificationEmail_def forgotPassword_def l demoDb_def demoUser_def
        demoEnv_def Let_def reply_def)
qed

section \<open>Login: theorems\<close>


text \<open>
  What a login does to the stored users: nothing, or the failure is counted for the
  user found (on a wrong password), or the counter of the user found is reset and
  the last login is written (when the login is accepted).
\<close>

lemma login_users:
  "users (snd (login e r d)) = users d
   \<or> (\<exists>i. findIndex (\<lambda>u. email u = castEmail (toLowerCase (lr_email r))) (users d) = Some i
         \<and> \<not> bcryptCompare e (lr_password r) (password (users d ! i))
         \<and> users (snd (login e r d))
             = (users d)[i := incrementLoginAttempts (maxLoginAttempts e) (lockoutTime e)
                               (now e) (users d ! i)])
   \<or> (\<exists>i. findIndex (\<lambda>u. email u = castEmail (toLowerCase (lr_email r))) (users d) = Some i
         \<and> bcryptCompare e (lr_password r) (password (users d ! i))
         \<and> (twoFactorEnabled (users d ! i) \<longrightarrow>
              (\<exists>tok. twoFactorToken r = Some tok \<and> tok \<noteq> []
                 \<and> totpVerify e None tok (now e) = Some True))
         \<and> users (snd (login e r d))
             = (users d)[i := (resetLoginAttempts (users d ! i))
                                \<lparr>lastLogin := Some (now e),
                                 lastLoginIP := Some (ipAddress (lr_deviceInfo r))\<rparr>])"
proof (cases "checkCredentials e r d")
  case (Inl out)
  obtain resp d' where out: "out = (resp, d')" by (cases out)
  have l: "login e r d = (resp, d')"
    using Inl out by (simp add: login_def)
  from checkCredentials_Inl_users [of e r d resp d'] Inl out show ?thesis
    unfolding l snd_conv by blast
next
  case (Inr c)
  obtain i u d1 where c: "c = (i, u, d1)" by (cases c)
  from checkCredentials_Inr [of e r d i u d1] Inr c
  have f: "findIndex (\<lambda>u. email u = castEmail (toLowerCase (lr_email r))) (users d) = Some i"
    and d1: "d1 = d"
    and pw: "bcryptCompare e (lr_password r) (password (users d ! i))"
    and tf: "twoFactorEnabled (users d ! i) \<longrightarrow>
          (\<exists>tok. twoFactorToken r = Some tok \<and> tok \<noteq> []
             \<and> totpVerify e None tok (now e) = Some True)"
    by simp_all
  have l: "login e r d = completeLogin e r i u d"
    using Inr c d1 by (simp add: login_def)
  from f pw tf show ?thesis
    unfolding l completeLogin_users by blast
qed




text \<open>
  With the right password, a second factor that is missing, or that the
  one-time-code check without a secret does not accept, ends the login before
  anything is written to a user.
\<close>

lemma login_rejected_second_factor:
  assumes found: "findIndex (\<lambda>u. email u = castEmail (toLowerCase (lr_email r))) (users d) = Some i"
    and pw: "bcryptCompare e (lr_password r) (password (users d ! i))"
    and tf: "twoFactorEnabled (users d ! i)"
    and no: "\<forall>tok. twoFactorToken r = Some tok \<longrightarrow>
               tok = [] \<or> totpVerify e None tok (now e) \<noteq> Some True"
  shows "users (snd (login e r d)) = users d"
  using login_users [of e r d] found pw tf no by auto

text \<open>
  With the right password, whatever the second factor, the lockout fields of every
  user are as before or cleared: only a wrong password counts a failure.
\<close>

lemma login_valid_password_lockout:
  assumes found: "findIndex (\<lambda>u. email u = castEmail (toLowerCase (lr_email r))) (users d) = Some i"
    and pw: "bcryptCompare e (lr_password r) (password (users d ! i))"
    and j: "j < length (users d)"
  shows "(loginAttempts (users (snd (login e r d)) ! j) = loginAttempts (users d ! j)
          \<and> lockUntil (users (snd (login e r d)) ! j) = lockUntil (users d ! j)
          \<and> isLocked (users (snd (login e r d)) ! j) = isLocked (users d ! j))
         \<or> (loginAttempts (users (snd (login e r d)) ! j) = 0
          \<and> lockUntil (users (snd (login e r d)) ! j) = None
          \<and> \<not> isLocked (users (snd (login e r d)) ! j))"
proof -
  from login_users [of e r d] found pw
  consider "users (snd (login e r d)) = users d"
    | "users (snd (login e r d))
             = (users d)[i := (resetLoginAttempts (users d ! i))
                                \<lparr>lastLogin := Some (now e),
                                 lastLoginIP := Some (ipAddress (lr_deviceInfo r))\<rparr>]"
    by auto
  then show ?thesis
  proof cases
    case 1
    then show ?thesis by simp
  next
    case 2
    show ?thesis
      using j by (cases "j = i") (simp_all add: 2 resetLoginAttempts_def)
  qed
qed

lemma cast_ann_plain: "castEmail (toLowerCase ''ann@example.com'') = ''ann@example.com''"
  by code_simp


lemma tfa_login_no_secret_code:
  "login (demoEnv 1000 ''tok-a'' True)
     (demoLogin ''ann@example.com'' ''secret-hash'' (Some ''000000'') ''Firefox'' ''9.9.9.9'')
     (tfaAttemptsDb n)
   = (\<lparr> statusCode = 200, success = True, message = Some ''Login successful'',
        requires2FA = False,
        tokens = Some \<lparr> accessToken = ''access-tok-a'', newRefreshToken = ''tok-a'' \<rparr> \<rparr>,
      \<lparr> users = [(tfaUser [''AAAA1111'', ''BBBB2222''])
                    \<lparr>loginAttempts := 0, lastLogin := Some 1000,
                     lastLoginIP := Some ''9.9.9.9''\<rparr>],
        sessions = [demoSession ''tok-a'' ''Firefox'' ''9.9.9.9'' 1000],
        devices = [\<lparr> dev_userId = ''u1'', deviceId = ''Firefox-9.9.9.9'',
                     deviceName = ''Firefox on Linux'', dev_deviceType = ''desktop'',
                     dev_browser = Some ''Firefox'', dev_os = Some ''Linux'',
                     dev_ipAddress = ''9.9.9.9'', lastUsed = 1000, isTrusted = False \<rparr>],
        securityLogs = [\<lparr> log_userId = Some ''u1'', log_email = Some ''ann@example.com'',
                          action = ''login'', log_ipAddress = ''9.9.9.9'',
                          log_userAgent = ''Firefox'', status = Success,
                          details = Some ''User logged in successfully'',
                          log_location = None, log_createdAt = 1000 \<rparr>] \<rparr>)"
  by (simp add: login_def checkCredentials_def completeLogin_def checkSuspiciousLogin_def
      verifySecondFactor_def loadForLogin_def sessionExpiry_def localTime_def utcTime_def
      loginRisk_def addReason_def recentFailures_def recentSuccessfulLogins_def
      successfulLogins_def newestFirst_def getLocationFromIP_def startsWith_def countryOf_def
      recentCountries_def tfaAttemptsDb_def tfaUser_def
      demoEnv_def demoLogin_def demoUser_def demoDevice_def demoSession_def
      cast_ann_plain isAccountLocked_def resetLoginAttempts_def generateDeviceId_def
      upsertDevice_def tpl_def logSecurityEvent_def actionEnum_def Let_def)




text \<open>
  C9 on the code. The user has two-factor authentication enabled, a stored secret,
  two backup codes and two failed logins counted. The login carries the right
  password and the code 000000, which is not a one-time code of the user's secret
  and not one of the backup codes: a wrong second factor. \<open>login\<close> loads the
  document without the secret, checks the code without a secret, accepts the login
  with status 200 and tokens, resets the counter from 2 to 0 and writes the last
  login.
\<close>

theorem wrong_second_factor_resets_lockout:
  "failedTwoFactorAttempt (users (tfaAttemptsDb 2))
     (demoEnv 1000 ''tok-a'' True,
      demoLogin ''ann@example.com'' ''secret-hash'' (Some ''000000'') ''Firefox'' ''9.9.9.9'')
   \<and> map loginAttempts (users (tfaAttemptsDb 2)) = [2]
   \<and> statusCode (fst (login (demoEnv 1000 ''tok-a'' True)
        (demoLogin ''ann@example.com'' ''secret-hash'' (Some ''000000'') ''Firefox'' ''9.9.9.9'')
        (tfaAttemptsDb 2))) = 200
   \<and> success (fst (login (demoEnv 1000 ''tok-a'' True)
        (demoLogin ''ann@example.com'' ''secret-hash'' (Some ''000000'') ''Firefox'' ''9.9.9.9'')
        (tfaAttemptsDb 2)))
   \<and> tokens (fst (login (demoEnv 1000 ''tok-a'' True)
        (demoLogin ''ann@example.com'' ''secret-hash'' (Some ''000000'') ''Firefox'' ''9.9.9.9'')
        (tfaAttemptsDb 2)))
       = Some \<lparr> accessToken = ''access-tok-a'', newRefreshToken = ''tok-a'' \<rparr>
   \<and> map loginAttempts (users (snd (login (demoEnv 1000 ''tok-a'' True)
        (demoLogin ''ann@example.com'' ''secret-hash'' (Some ''000000'') ''Firefox'' ''9.9.9.9'')
        (tfaAttemptsDb 2)))) = [0]
   \<and> map lastLogin (users (snd (login (demoEnv 1000 ''tok-a'' True)
        (demoLogin ''ann@example.com'' ''secret-hash'' (Some ''000000'') ''Firefox'' ''9.9.9.9'')
        (tfaAttemptsDb 2)))) = [Some 1000]"
proof -
  have "failedTwoFactorAttempt (users (tfaAttemptsDb 2))
     (demoEnv 1000 ''tok-a'' True,
      demoLogin ''ann@example.com'' ''secret-hash'' (Some ''000000'') ''Firefox'' ''9.9.9.9'')"
    by (simp add: failedTwoFactorAttempt_def wrongSecondFactor_def backupCodeSet_def
        demoLogin_def cast_ann_plain tfaAttemptsDb_def tfaUser_def demoUser_def demoEnv_def)
  moreover have "map loginAttempts (users (tfaAttemptsDb 2)) = [2]"
    by (simp add: tfaAttemptsDb_def)
  ultimately show ?thesis
    unfolding tfa_login_no_secret_code fst_conv snd_conv by simp
qed

end
